theory Spec2Isabelle
  imports Main "HOL-Library.Sublist"
begin

section \<open>Webhook rendezvous\<close>

text \<open>
  The provider webhook of the backend service (\<^verbatim>\<open>backend/api/endpoints.py\<close>,
  \<^verbatim>\<open>assemblyai_webhook\<close>) and the delivery endpoint of the bot service
  (\<^verbatim>\<open>bot/api/endpoints.py\<close>, \<^verbatim>\<open>send_message_to_user\<close>). Python dictionaries
  are association lists read with \<^const>\<open>map_of\<close>; the persisted table \<^verbatim>\<open>stt_files\<close>
  is a map from record id to row. Every external call is written to an effect log, and
  every exception of the source is a branch.
\<close>

subsection \<open>Values\<close>

datatype json =
  JNull | JBool bool | JInt int | JStr string | JBytes | JBytesIO | JObj "(string \<times> json) list"

type_synonym dict = "(string \<times> json) list"

type_synonym stt_files = "string \<rightharpoonup> dict"

text \<open>Python truthiness, as used by \<^verbatim>\<open>if x\<close> and \<^verbatim>\<open>not x\<close>.\<close>

fun json_truthy :: "json \<Rightarrow> bool" where
  "json_truthy JNull = False"
| "json_truthy (JBool b) = b"
| "json_truthy (JInt i) = (i \<noteq> 0)"
| "json_truthy (JStr s) = (s \<noteq> [])"
| "json_truthy JBytes = True"
| "json_truthy JBytesIO = True"
| "json_truthy (JObj kvs) = (kvs \<noteq> [])"

definition truthy :: "string option \<Rightarrow> bool" where
  "truthy v = (case v of None \<Rightarrow> False | Some s \<Rightarrow> s \<noteq> [])"

definition opt_json :: "string option \<Rightarrow> json" where
  "opt_json v = (case v of None \<Rightarrow> JNull | Some s \<Rightarrow> JStr s)"

definition dict_get :: "dict \<Rightarrow> string \<Rightarrow> json" where
  "dict_get d k = (case map_of d k of None \<Rightarrow> JNull | Some v \<Rightarrow> v)"

text \<open>\<^verbatim>\<open>json.dumps\<close> of a request body: the type name in the \<^verbatim>\<open>TypeError\<close> it
  raises at the first value it cannot encode, if there is one.\<close>

fun unserializable :: "json \<Rightarrow> string option"
  and unserializable_items :: "(string \<times> json) list \<Rightarrow> string option" where
  "unserializable JBytes = Some ''bytes''"
| "unserializable JBytesIO = Some ''BytesIO''"
| "unserializable (JObj kvs) = unserializable_items kvs"
| "unserializable _ = None"
| "unserializable_items [] = None"
| "unserializable_items (kv # kvs) =
     (case unserializable (snd kv) of Some ty \<Rightarrow> Some ty | None \<Rightarrow> unserializable_items kvs)"

definition not_serializable :: "string \<Rightarrow> string" where
  "not_serializable ty = ''Object of type '' @ ty @ '' is not JSON serializable''"

text \<open>\<^verbatim>\<open>AppBaseException.__str__\<close>: \<^verbatim>\<open>f"{self.message} - Details: {self.details}"\<close>.\<close>

definition app_exception_str :: "string \<Rightarrow> string \<Rightarrow> string" where
  "app_exception_str message details = message @ '' - Details: '' @ details"

text \<open>\<^verbatim>\<open>repr\<close> of a list, given the \<^verbatim>\<open>repr\<close> of its items.\<close>

fun comma_separated :: "string list \<Rightarrow> string" where
  "comma_separated [] = []"
| "comma_separated [x] = x"
| "comma_separated (x # y # ys) = x @ '', '' @ comma_separated (y # ys)"

definition list_repr :: "string list \<Rightarrow> string" where
  "list_repr items = ''['' @ comma_separated items @ '']''"

record response =
  status_code :: nat
  content :: json

text \<open>What the handlers do to the outside world, in the order they do it.\<close>

datatype effect =
    DbCheckDelivery string
  | ProviderFetch string
  | DbSelectRecord string
  | StorageUpload
  | DbUpdate json dict
  | HttpPost string dict
  | TgSendFile int string string string "string option" "int option"
  | TgSendReply int string int
  | TgSendMessage int string
  | TgDeleteMessage int int

subsection \<open>The persistence adapter of the backend\<close>

text \<open>
  \<^verbatim>\<open>db_fault\<close> is the message of the exception the database client raises, if it
  does; \<^verbatim>\<open>storage_upload\<close> is the path \<^verbatim>\<open>upload_docx_to_storage\<close> returns, or
  \<^verbatim>\<open>None\<close> when it raises; \<^verbatim>\<open>repr_str\<close> is Python's \<^verbatim>\<open>repr\<close> of a \<^verbatim>\<open>str\<close>, which
  formats the details of a \<^verbatim>\<open>DatabaseError\<close>.
\<close>

record persistence =
  db_fault :: "string option"
  storage_upload :: "string option"
  repr_str :: "string \<Rightarrow> string"

definition check_stt_record_delivery :: "persistence \<Rightarrow> stt_files \<Rightarrow> string \<Rightarrow> string + bool" where
  "check_stt_record_delivery p db record_id =
     (case db_fault p of
        Some e \<Rightarrow>
          Inl (app_exception_str (''Failed to check STT record delivery status: '' @ e)
                 (''{'record_id': '' @ repr_str p record_id @ ''}''))
      | None \<Rightarrow>
          (case db record_id of
             None \<Rightarrow> Inr False
           | Some row \<Rightarrow>
               (case map_of row ''delivered_to_user'' of
                  None \<Rightarrow> Inr False
                | Some v \<Rightarrow> Inr (json_truthy v))))"

text \<open>\<^verbatim>\<open>table("stt_files").update(update_data).eq("id", record_id).execute()\<close>: the
  updated rows are the response's data.\<close>

definition table_update :: "stt_files \<Rightarrow> json \<Rightarrow> dict \<Rightarrow> stt_files \<times> dict list" where
  "table_update db record_id update_data =
     (case record_id of
        JStr rid \<Rightarrow>
          (case db rid of
             None \<Rightarrow> (db, [])
           | Some row \<Rightarrow> (db(rid \<mapsto> update_data @ row), [update_data @ row]))
      | _ \<Rightarrow> (db, []))"

definition dict_pop :: "string \<Rightarrow> dict \<Rightarrow> dict" where
  "dict_pop k d = filter (\<lambda>kv. fst kv \<noteq> k) d"

text \<open>
  \<^verbatim>\<open>update_stt_record\<close> of the backend: stamps \<^verbatim>\<open>processed_at\<close>, moves a DOCX to
  storage, then updates the row. Any exception on the way, the \<^verbatim>\<open>TypeError\<close> of
  encoding a request body that still holds the DOCX bytes included, becomes a
  \<^verbatim>\<open>DatabaseError\<close> whose details name the record and the keys \<^verbatim>\<open>update_data\<close> has
  at that moment.
\<close>

definition stamp_processed_at :: "dict \<Rightarrow> dict" where
  "stamp_processed_at update_data =
     (if (map_of update_data ''status'' = Some (JStr ''completed'')
          \<or> map_of update_data ''status'' = Some (JStr ''error''))
         \<and> map_of update_data ''processed_at'' = None
      then update_data @ [(''processed_at'', JStr ''now()'')]
      else update_data)"

definition store_docx :: "persistence \<Rightarrow> stt_files \<Rightarrow> string \<Rightarrow> dict \<Rightarrow> dict \<times> effect list" where
  "store_docx p db record_id update_data =
     (if map_of update_data ''transcription_docx'' = None then (update_data, [])
      else
        (case db record_id of
           None \<Rightarrow> (update_data, [DbSelectRecord record_id])
         | Some row \<Rightarrow>
             if json_truthy (dict_get row ''chat_id'') \<and> json_truthy (dict_get row ''transcript_id'')
             then
               (if map_of update_data ''transcription_docx'' = Some JBytes
                   \<or> map_of update_data ''transcription_docx'' = Some JBytesIO
                then
                  (case storage_upload p of
                     Some path \<Rightarrow>
                       (dict_pop ''transcription_docx'' update_data @ [(''transcript_docx_path'', JStr path)],
                        [DbSelectRecord record_id, StorageUpload])
                   | None \<Rightarrow>
                       (dict_pop ''transcription_docx'' update_data,
                        [DbSelectRecord record_id, StorageUpload]))
                else (dict_pop ''transcription_docx'' update_data, [DbSelectRecord record_id]))
             else (update_data, [DbSelectRecord record_id])))"

definition update_failed :: "persistence \<Rightarrow> string \<Rightarrow> string \<Rightarrow> dict \<Rightarrow> string" where
  "update_failed p e record_id update_data =
     app_exception_str (''Failed to update STT record: '' @ e)
       (''{'record_id': '' @ repr_str p record_id @ '', 'update_data_keys': ''
        @ list_repr (map (repr_str p \<circ> fst) update_data) @ ''}'')"

definition update_stt_record ::
  "persistence \<Rightarrow> stt_files \<Rightarrow> string \<Rightarrow> dict \<Rightarrow> (string + dict list) \<times> stt_files \<times> effect list" where
  "update_stt_record p db record_id update_data =
     (let stamped = stamp_processed_at update_data
      in case (map_of stamped ''transcription_docx'', db_fault p) of
           (Some docx_data, Some e) \<Rightarrow>
             (Inl (update_failed p e record_id stamped), db, [DbSelectRecord record_id])
         | _ \<Rightarrow>
             (let (data, effs) = store_docx p db record_id stamped
              in case unserializable (JObj data) of
                   Some ty \<Rightarrow> (Inl (update_failed p (not_serializable ty) record_id data), db, effs)
                 | None \<Rightarrow>
                     (case db_fault p of
                        Some e \<Rightarrow>
                          (Inl (update_failed p e record_id data), db,
                           effs @ [DbUpdate (JStr record_id) data])
                      | None \<Rightarrow>
                          (let (db', rows) = table_update db (JStr record_id) data
                           in (Inr rows, db', effs @ [DbUpdate (JStr record_id) data])))))"

subsection \<open>The webhook handler of the backend\<close>

datatype docx = BytesIO | Bytes | Unexpected

record transcript =
  tr_text :: string
  model_used :: "string option"
  detected_language :: "string option"
  summary :: "string option"
  transcription_docx :: "docx option"

record webhook_payload =
  p_transcript_id :: "string option"
  p_status :: "string option"

record request =
  hdr_X_Webhook_Secret :: "string option"
  q_t_id :: "string option"
  q_chat_id :: "string option"
  q_db_thread_id :: "string option"
  q_message_id :: "string option"
  q_temp_msg_id :: "string option"
  json_body :: "string + webhook_payload"

text \<open>
  The environment of the handler. \<^verbatim>\<open>getenv_OUR_SECRET_TOKEN\<close> is
  \<^verbatim>\<open>os.getenv("OUR_SECRET_TOKEN")\<close> read inside the handler, \<^verbatim>\<open>OUR_SECRET_TOKEN\<close>
  and \<^verbatim>\<open>TAGENT_LOCAL_URL\<close> are the module constants read at import. \<^verbatim>\<open>py_int\<close> is
  Python's \<^verbatim>\<open>int\<close> on a string (\<^verbatim>\<open>None\<close> where it raises \<^verbatim>\<open>ValueError\<close>),
  \<^verbatim>\<open>get_transcript_result\<close> the provider adapter (\<^verbatim>\<open>Inl\<close> where it raises).
\<close>

record webhook_env =
  getenv_OUR_SECRET_TOKEN :: "string option"
  OUR_SECRET_TOKEN :: "string option"
  TAGENT_LOCAL_URL :: "string option"
  SUPABASE_URL :: string
  py_int :: "string \<Rightarrow> int option"
  utc_now :: string
  file_stamp :: string
  store :: persistence
  get_transcript_result :: "string \<Rightarrow> string + transcript"

text \<open>
  \<^verbatim>\<open>session.post(url + path, headers, json)\<close>: the arguments are the base URL, the
  path, the \<^verbatim>\<open>X-Secret-Token\<close> header and the JSON payload; the result is the
  exception's message or the HTTP status, the table afterwards, and what the callee did.
\<close>

type_synonym http =
  "string \<Rightarrow> string \<Rightarrow> string \<Rightarrow> dict \<Rightarrow> stt_files \<Rightarrow> (string + nat) \<times> stt_files \<times> effect list"

definition json_response :: "nat \<Rightarrow> string \<Rightarrow> response" where
  "json_response code msg = \<lparr>status_code = code, content = JObj [(''error'', JStr msg)]\<rparr>"

definition internal_error :: "string \<Rightarrow> response" where
  "internal_error e = json_response 500 (''Internal server error: '' @ e)"

definition processed :: "webhook_env \<Rightarrow> response" where
  "processed env =
     \<lparr>status_code = 200,
      content = JObj [(''success'', JBool True), (''processed_at'', JStr (utc_now env))]\<rparr>"

definition already_delivered :: response where
  "already_delivered =
     \<lparr>status_code = 200,
      content = JObj [(''success'', JBool True),
                     (''message'', JStr ''Result already delivered to user'')]\<rparr>"

definition json_text :: "json \<Rightarrow> string" where
  "json_text v = (case v of JStr s \<Rightarrow> s | _ \<Rightarrow> ''None'')"

definition completed_update :: "webhook_env \<Rightarrow> transcript \<Rightarrow> dict" where
  "completed_update env result =
     [(''status'', JStr ''completed''),
      (''transcript'', JStr (tr_text result)),
      (''model_used'', opt_json (model_used result)),
      (''detected_language'', opt_json (detected_language result)),
      (''processed_at'', JStr (utc_now env))]
     @ (case transcription_docx result of
          Some BytesIO \<Rightarrow> [(''transcription_docx'', JBytesIO)]
        | Some Bytes \<Rightarrow> [(''transcription_docx'', JBytes)]
        | _ \<Rightarrow> [])"

definition user_message :: "transcript \<Rightarrow> string" where
  "user_message result =
     (let txt = (if truthy (summary result) then the (summary result) else tr_text result);
          truncated = (if length txt \<le> 1000 then txt else take 1000 txt @ ''...'')
      in if truthy (summary result)
         then ''**Summary**'' @ [CHR 0x0A] @ ''_'' @ truncated @ ''_''
         else ''_'' @ truncated @ ''_'')"

definition transcript_message ::
  "webhook_env \<Rightarrow> request \<Rightarrow> string \<Rightarrow> int \<Rightarrow> string \<Rightarrow> string \<Rightarrow> transcript \<Rightarrow> json \<Rightarrow> dict" where
  "transcript_message env req t_id chat_id db_thread_id tr_id result docx_path =
     [(''chat_id'', JInt chat_id),
      (''db_thread_id'', JStr db_thread_id),
      (''message_id'', opt_json (q_message_id req)),
      (''temp_msg_id'', opt_json (q_temp_msg_id req)),
      (''message'', JStr (user_message result)),
      (''metadata'', JObj [(''stt_record_id'', JStr t_id), (''stt_transcript_id'', JStr tr_id)])]
     @ (if json_truthy docx_path
        then [(''file_url'', JStr (SUPABASE_URL env @ ''/storage/v1/object/public/'' @ json_text docx_path)),
              (''file_type'', JStr ''document''),
              (''file_name'', JStr (''stt_'' @ file_stamp env @ ''.docx''))]
        else [])"

definition process_payload :: "int \<Rightarrow> string \<Rightarrow> transcript \<Rightarrow> dict" where
  "process_payload chat_id db_thread_id result =
     [(''chat_id'', JInt chat_id),
      (''db_thread_id'', JStr db_thread_id),
      (''text'', JStr (tr_text result)),
      (''message_id'', JNull)]"

definition failure_notice :: "int \<Rightarrow> dict" where
  "failure_notice chat_id =
     [(''chat_id'', JInt chat_id),
      (''message'', JStr ''Sorry, there was an error processing your audio transcription.'')]"

definition webhook_completed ::
  "webhook_env \<Rightarrow> http \<Rightarrow> request \<Rightarrow> stt_files \<Rightarrow> string \<Rightarrow> int \<Rightarrow> string \<Rightarrow> string
   \<Rightarrow> response \<times> stt_files \<times> effect list" where
  "webhook_completed env post req db t_id chat_id db_thread_id tr_id =
     (case get_transcript_result env tr_id of
        Inl e \<Rightarrow> (internal_error e, db, [ProviderFetch tr_id])
      | Inr result \<Rightarrow>
          (case update_stt_record (store env) db t_id (completed_update env result) of
             (Inl e, db1, effs) \<Rightarrow> (internal_error e, db1, ProviderFetch tr_id # effs)
           | (Inr rows, db1, effs) \<Rightarrow>
               (let docx_path = (case rows of [] \<Rightarrow> JNull | row # _ \<Rightarrow> dict_get row ''transcript_docx_path'')
                in case (TAGENT_LOCAL_URL env, OUR_SECRET_TOKEN env) of
                     (Some url, Some token) \<Rightarrow>
                       if url = [] \<or> token = []
                       then (\<lparr>status_code = 200, content = JNull\<rparr>, db1, ProviderFetch tr_id # effs)
                       else
                         (let payload = transcript_message env req t_id chat_id db_thread_id tr_id result docx_path;
                              (sent, db2, effs2) = post url ''/send_message_to_user'' token payload db1;
                              log2 = ProviderFetch tr_id # effs
                                     @ [HttpPost ''/send_message_to_user'' payload] @ effs2
                          in if sent = Inr 200
                             then
                               (let pp = process_payload chat_id db_thread_id result;
                                    (fed, db3, effs3) = post url ''/process_message'' token pp db2
                                in (processed env, db3, log2 @ [HttpPost ''/process_message'' pp] @ effs3))
                             else (processed env, db2, log2))
                   | _ \<Rightarrow> (\<lparr>status_code = 200, content = JNull\<rparr>, db1, ProviderFetch tr_id # effs))))"

definition webhook_error ::
  "webhook_env \<Rightarrow> http \<Rightarrow> stt_files \<Rightarrow> string \<Rightarrow> int \<Rightarrow> response \<times> stt_files \<times> effect list" where
  "webhook_error env post db t_id chat_id =
     (case update_stt_record (store env) db t_id
             [(''status'', JStr ''error''),
              (''error'', JStr ''Transcription failed at AssemblyAI''),
              (''processed_at'', JStr (utc_now env))] of
        (Inl e, db1, effs) \<Rightarrow> (internal_error e, db1, effs)
      | (Inr rows, db1, effs) \<Rightarrow>
          (case (TAGENT_LOCAL_URL env, OUR_SECRET_TOKEN env) of
             (Some url, Some token) \<Rightarrow>
               if url = [] \<or> token = [] then (processed env, db1, effs)
               else
                 (let (sent, db2, effs2) = post url ''/send_message_to_user'' token (failure_notice chat_id) db1
                  in (processed env, db2,
                      effs @ [HttpPost ''/send_message_to_user'' (failure_notice chat_id)] @ effs2))
           | _ \<Rightarrow> (processed env, db1, effs)))"

text \<open>The part of the handler after the secret and the identifiers have been checked.\<close>

definition webhook_deliver ::
  "webhook_env \<Rightarrow> http \<Rightarrow> request \<Rightarrow> stt_files \<Rightarrow> string \<Rightarrow> int \<Rightarrow> string
   \<Rightarrow> response \<times> stt_files \<times> effect list" where
  "webhook_deliver env post req db t_id chat_id db_thread_id =
     (case check_stt_record_delivery (store env) db t_id of
        Inl e \<Rightarrow> (internal_error e, db, [DbCheckDelivery t_id])
      | Inr True \<Rightarrow> (already_delivered, db, [DbCheckDelivery t_id])
      | Inr False \<Rightarrow>
          (case json_body req of
             Inl e \<Rightarrow> (internal_error e, db, [DbCheckDelivery t_id])
           | Inr payload \<Rightarrow>
               if \<not> truthy (p_transcript_id payload) \<or> \<not> truthy (p_status payload)
               then (json_response 400 ''Bad request: Missing required fields'', db, [DbCheckDelivery t_id])
               else
                 (let (r, db', effs) =
                        (if p_status payload = Some ''completed''
                         then webhook_completed env post req db t_id chat_id db_thread_id
                                (the (p_transcript_id payload))
                         else if p_status payload = Some ''error''
                         then webhook_error env post db t_id chat_id
                         else (processed env, db, []))
                  in (r, db', DbCheckDelivery t_id # effs))))"

definition secret_ok :: "webhook_env \<Rightarrow> request \<Rightarrow> bool" where
  "secret_ok env req =
     (\<not> truthy (getenv_OUR_SECRET_TOKEN env)
      \<or> (truthy (hdr_X_Webhook_Secret req)
          \<and> hdr_X_Webhook_Secret req = getenv_OUR_SECRET_TOKEN env))"

definition assemblyai_webhook ::
  "webhook_env \<Rightarrow> http \<Rightarrow> request \<Rightarrow> stt_files \<Rightarrow> response \<times> stt_files \<times> effect list" where
  "assemblyai_webhook env post req db =
     (if \<not> secret_ok env req
      then (json_response 401 ''Unauthorized: Invalid webhook secret'', db, [])
      else if \<not> truthy (q_t_id req)
      then (json_response 400 ''Bad request: Missing t_id parameter'', db, [])
      else if \<not> truthy (q_chat_id req)
      then (json_response 400 ''Bad request: Missing chat_id parameter'', db, [])
      else if \<not> truthy (q_db_thread_id req)
      then (json_response 400 ''Bad request: Missing db_thread_id parameter'', db, [])
      else
        (case py_int env (the (q_chat_id req)) of
           None \<Rightarrow> (json_response 400 ''Bad request: Invalid chat_id format'', db, [])
         | Some chat_id \<Rightarrow>
             webhook_deliver env post req db (the (q_t_id req)) chat_id (the (q_db_thread_id req))))"

subsection \<open>The delivery endpoint of the bot\<close>

record SendMessage =
  sm_chat_id :: int
  sm_message_id :: "int option"
  sm_temp_msg_id :: "int option"
  sm_message :: string
  sm_file_url :: "string option"
  sm_file_type :: "string option"
  sm_caption :: "string option"
  sm_file_name :: "string option"
  sm_metadata :: "dict option"

text \<open>
  The environment of the bot service: its own reading of the secret, the rate limiter's
  verdict, the schema validator's reading of an integer written as a string, the
  exceptions the chat transport and the database client raise, if they do, and Python's
  \<^verbatim>\<open>repr\<close> of a value of the request body.
\<close>

record bot_env =
  bot_getenv_OUR_SECRET_TOKEN :: "string option"
  rate_limited :: bool
  str_int :: "string \<Rightarrow> int option"
  telegram_fault :: "string option"
  bot_db_fault :: "string option"
  repr_json :: "json \<Rightarrow> string"

definition EMPTY_MESSAGE_DEFAULT :: string where
  "EMPTY_MESSAGE_DEFAULT = ''No text''"

text \<open>\<^verbatim>\<open>re.sub(r'<[^>]+>', '', text)\<close>: a tag is a \<^verbatim>\<open><\<close>, at least one character
  other than \<^verbatim>\<open>>\<close>, and the next \<^verbatim>\<open>>\<close>.\<close>

function strip_tags :: "string \<Rightarrow> string" where
  "strip_tags [] = []"
| "strip_tags (c # cs) =
     (if c = CHR ''<''
         \<and> takeWhile (\<lambda>x. x \<noteq> CHR ''>'') cs \<noteq> []
         \<and> dropWhile (\<lambda>x. x \<noteq> CHR ''>'') cs \<noteq> []
      then strip_tags (tl (dropWhile (\<lambda>x. x \<noteq> CHR ''>'') cs))
      else c # strip_tags cs)"
  by pat_completeness auto
termination
proof (relation "measure length")
  fix c :: char and cs :: string
  have "length (dropWhile (\<lambda>x. x \<noteq> CHR ''>'') cs) \<le> length cs"
    by (rule length_dropWhile_le)
  then show "(tl (dropWhile (\<lambda>x. x \<noteq> CHR ''>'') cs), c # cs) \<in> measure length"
    by simp
qed simp_all

text \<open>What \<^verbatim>\<open>str.strip()\<close> removes: the characters for which \<^verbatim>\<open>str.isspace\<close> holds.
  A character is a code point below 256.\<close>

definition is_space :: "char \<Rightarrow> bool" where
  "is_space c = (c \<in> set [CHR '' '', CHR 0x09, CHR 0x0A, CHR 0x0B, CHR 0x0C, CHR 0x0D,
                            CHR 0x1C, CHR 0x1D, CHR 0x1E, CHR 0x1F, CHR 0x85, CHR 0xA0])"

definition is_essentially_empty :: "string \<Rightarrow> bool" where
  "is_essentially_empty txt =
     (txt = [] \<or>
      list_all is_space
        (strip_tags (filter (\<lambda>c. c \<notin> set [CHR ''*'', CHR ''_'', CHR 0x60, CHR ''~'']) txt)))"

text \<open>The request body read against the \<^verbatim>\<open>SendMessage\<close> schema; \<^verbatim>\<open>None\<close> is a
  validation error. An \<^verbatim>\<open>int\<close> field takes a JSON integer, a boolean (as 0 or 1) and
  a string that reads as an integer.\<close>

definition int_field :: "(string \<Rightarrow> int option) \<Rightarrow> json \<Rightarrow> int option" where
  "int_field conv v =
     (case v of
        JInt i \<Rightarrow> Some i
      | JBool b \<Rightarrow> Some (if b then 1 else 0)
      | JStr s \<Rightarrow> conv s
      | _ \<Rightarrow> None)"

definition opt_int_field :: "(string \<Rightarrow> int option) \<Rightarrow> json option \<Rightarrow> int option option" where
  "opt_int_field conv v =
     (case v of
        None \<Rightarrow> Some None
      | Some JNull \<Rightarrow> Some None
      | Some w \<Rightarrow> (case int_field conv w of None \<Rightarrow> None | Some i \<Rightarrow> Some (Some i)))"

definition opt_str_field :: "json option \<Rightarrow> string option option" where
  "opt_str_field v =
     (case v of
        None \<Rightarrow> Some None
      | Some JNull \<Rightarrow> Some None
      | Some (JStr s) \<Rightarrow> Some (Some s)
      | _ \<Rightarrow> None)"

definition opt_dict_field :: "json option \<Rightarrow> dict option option" where
  "opt_dict_field v =
     (case v of
        None \<Rightarrow> Some None
      | Some JNull \<Rightarrow> Some None
      | Some (JObj d) \<Rightarrow> Some (Some d)
      | _ \<Rightarrow> None)"

definition file_types :: "string list" where
  "file_types = [''document'', ''photo'', ''audio'', ''video'', ''voice'']"

definition parse_SendMessage :: "(string \<Rightarrow> int option) \<Rightarrow> dict \<Rightarrow> SendMessage option" where
  "parse_SendMessage conv d =
     (case (map_of d ''chat_id'', map_of d ''message'') of
        (Some c, Some (JStr m)) \<Rightarrow>
          (case (int_field conv c,
                 opt_int_field conv (map_of d ''message_id''),
                 opt_int_field conv (map_of d ''temp_msg_id'')) of
             (Some cid, Some mid, Some tid) \<Rightarrow>
               (case (opt_str_field (map_of d ''file_url''),
                      opt_str_field (map_of d ''file_type''),
                      opt_str_field (map_of d ''caption'')) of
                  (Some url, Some ft, Some cap) \<Rightarrow>
                    (case (opt_str_field (map_of d ''file_name''),
                           opt_dict_field (map_of d ''metadata'')) of
                       (Some fname, Some md) \<Rightarrow>
                         if (case ft of None \<Rightarrow> True | Some t \<Rightarrow> t \<in> set file_types)
                         then Some \<lparr>sm_chat_id = cid, sm_message_id = mid, sm_temp_msg_id = tid,
                                    sm_message = m, sm_file_url = url, sm_file_type = ft,
                                    sm_caption = cap, sm_file_name = fname, sm_metadata = md\<rparr>
                         else None
                     | _ \<Rightarrow> None)
                | _ \<Rightarrow> None)
           | _ \<Rightarrow> None)
      | _ \<Rightarrow> None)"

text \<open>\<^verbatim>\<open>update_stt_record\<close> of the bot's persistence adapter.\<close>

definition bot_update_stt_record ::
  "bot_env \<Rightarrow> stt_files \<Rightarrow> json \<Rightarrow> dict \<Rightarrow> (string + dict list) \<times> stt_files \<times> effect list" where
  "bot_update_stt_record env db record_id update_data =
     (case bot_db_fault env of
        Some e \<Rightarrow>
          (Inl (app_exception_str (''Failed to update STT record: '' @ e)
                  (''{'record_id': '' @ repr_json env record_id @ '', 'update_data': ''
                   @ repr_json env (JObj update_data) @ ''}'')),
           db, [DbUpdate record_id update_data])
      | None \<Rightarrow>
          (let (db', rows) = table_update db record_id update_data
           in (Inr rows, db', [DbUpdate record_id update_data])))"

definition truthy_int :: "int option \<Rightarrow> bool" where
  "truthy_int v = (case v of None \<Rightarrow> False | Some i \<Rightarrow> i \<noteq> 0)"

definition sent_ok :: dict where
  "sent_ok = [(''success'', JBool True), (''result'', JStr ''Message sent'')]"

definition sent_failed :: "string \<Rightarrow> dict" where
  "sent_failed e = [(''success'', JBool False), (''error'', JStr e)]"

text \<open>The transport call the endpoint makes: a file, a reply, or a plain message.\<close>

definition transport_call :: "SendMessage \<Rightarrow> string \<Rightarrow> effect" where
  "transport_call data msg =
     (if truthy (sm_file_url data) \<and> truthy (sm_file_type data)
      then TgSendFile (sm_chat_id data) (the (sm_file_url data)) (the (sm_file_type data))
             (if truthy (sm_caption data) then the (sm_caption data) else msg)
             (sm_file_name data)
             (if truthy_int (sm_message_id data) then sm_message_id data else None)
      else if truthy_int (sm_message_id data)
      then TgSendReply (sm_chat_id data) msg (the (sm_message_id data))
      else TgSendMessage (sm_chat_id data) msg)"

definition send_message_to_user :: "bot_env \<Rightarrow> SendMessage \<Rightarrow> stt_files \<Rightarrow> dict \<times> stt_files \<times> effect list" where
  "send_message_to_user env data db =
     (if sm_chat_id data = 0 then (sent_failed ''chat_id is required'', db, [])
      else if sm_message data = [] then (sent_failed ''message is required'', db, [])
      else
        (let msg = (if is_essentially_empty (sm_message data) then EMPTY_MESSAGE_DEFAULT
                    else sm_message data)
         in case telegram_fault env of
              Some e \<Rightarrow> (sent_failed e, db, [transport_call data msg])
            | None \<Rightarrow>
                (let sent = transport_call data msg #
                            (if truthy_int (sm_temp_msg_id data)
                             then [TgDeleteMessage (sm_chat_id data) (the (sm_temp_msg_id data))]
                             else [])
                 in case sm_metadata data of
                      None \<Rightarrow> (sent_ok, db, sent)
                    | Some md \<Rightarrow>
                        if md \<noteq> [] \<and> map_of md ''stt_record_id'' \<noteq> None
                        then
                          (let (r, db', effs) =
                                 bot_update_stt_record env db (dict_get md ''stt_record_id'')
                                   [(''delivered_to_user'', JBool True)]
                           in (sent_ok, db', sent @ effs))
                        else (sent_ok, db, sent))))"

text \<open>
  The bot service as the backend's HTTP peer: the secret-token dependency, the schema,
  the rate limiter, then the endpoint. \<^verbatim>\<open>/process_message\<close> hands the text to the
  agent and touches neither the table nor the transport synchronously.
\<close>

definition bot_service :: "bot_env \<Rightarrow> http" where
  "bot_service env url path token payload db =
     (if \<not> truthy (bot_getenv_OUR_SECRET_TOKEN env) then (Inr 500, db, [])
      else if Some token \<noteq> bot_getenv_OUR_SECRET_TOKEN env then (Inr 401, db, [])
      else if path = ''/send_message_to_user''
      then
        (case parse_SendMessage (str_int env) payload of
           None \<Rightarrow> (Inr 422, db, [])
         | Some data \<Rightarrow>
             if rate_limited env then (Inr 429, db, [])
             else (let (body, db', effs) = send_message_to_user env data db
                   in (Inr 200, db', effs)))
      else if path = ''/process_message''
      then (if rate_limited env then (Inr 429, db, []) else (Inr 200, db, []))
      else (Inr 404, db, []))"

section \<open>Category-concurrency task manager\<close>

text \<open>
  The task manager of the backend service (\<^verbatim>\<open>backend/services/task_manager.py\<close>).
  \<^verbatim>\<open>Task\<close> objects live in a store, in allocation order, and \<^verbatim>\<open>self.tasks\<close> maps a
  task id to the object it currently names: a closure that captured a task (its
  \<^verbatim>\<open>run\<close>, its completion callback) keeps the object, whatever \<^verbatim>\<open>self.tasks\<close> says
  later. A running-set is a Python set, kept as a duplicate-free list. Times are seconds.
  The manager runs on one cooperative scheduler, so each function body up to its next
  suspension is one atomic step.
\<close>

subsection \<open>Task\<close>

datatype TaskStatus = QUEUED | PENDING | RUNNING | COMPLETED | FAILED | NOT_FOUND

datatype TaskType = TRANSCRIPTION | REPORT | DEFAULT

text \<open>The \<^verbatim>\<open>asyncio.Task\<close> that executes \<^verbatim>\<open>task.run()\<close>: \<^verbatim>\<open>done()\<close> is false or true.\<close>

datatype future = Active | Finished

record Task =
  task_id :: string
  status :: TaskStatus
  task_type :: TaskType
  result :: "dict option"
  error :: "string option"
  created_at :: int
  started_at :: "int option"
  completed_at :: "int option"
  task :: "future option"
  coroutine :: nat
  queue_position :: "nat option"

definition Task_init :: "string \<Rightarrow> nat \<Rightarrow> TaskType \<Rightarrow> int \<Rightarrow> Task" where
  "Task_init tid co ty now =
     \<lparr>task_id = tid, status = QUEUED, task_type = ty, result = None, error = None,
      created_at = now, started_at = None, completed_at = None, task = None,
      coroutine = co, queue_position = None\<rparr>"

text \<open>How the awaited work function ends: it returns a value (Python's \<^verbatim>\<open>None\<close> is
  \<^verbatim>\<open>None\<close>), it raises an \<^verbatim>\<open>Exception\<close> whose \<^verbatim>\<open>str\<close> is given, or it raises
  \<^verbatim>\<open>asyncio.CancelledError\<close>, a \<^verbatim>\<open>BaseException\<close> that \<^verbatim>\<open>except Exception\<close> does not
  catch.\<close>

datatype outcome = Returned "dict option" | Raised string | Cancelled

subsection \<open>TaskManager\<close>

record TaskManager =
  objects :: "Task list"
  tasks :: "string \<rightharpoonup> nat"
  task_queues :: "TaskType \<Rightarrow> string list"
  running_tasks :: "TaskType \<Rightarrow> string list"
  cleanup_task :: bool
  queue_processor_task :: bool
  retention_minutes :: int
  concurrency_limits :: "TaskType \<Rightarrow> nat"
  completions :: "nat list"
  started_log :: "(string \<times> TaskType) list"




definition obj_update :: "nat \<Rightarrow> (Task \<Rightarrow> Task) \<Rightarrow> TaskManager \<Rightarrow> TaskManager" where
  "obj_update r f m = m\<lparr>objects := (objects m)[r := f (objects m ! r)]\<rparr>"

definition start_task :: "nat \<Rightarrow> TaskManager \<Rightarrow> TaskManager" where
  "start_task r m =
     (let t = objects m ! r
      in (obj_update r (\<lambda>t. t\<lparr>status := PENDING, task := Some Active\<rparr>) m)
           \<lparr>running_tasks := (running_tasks m)
               (task_type t := List.insert (task_id t) (running_tasks m (task_type t))),
            started_log := started_log m @ [(task_id t, task_type t)]\<rparr>)"

definition add_task ::
  "nat \<Rightarrow> TaskType \<Rightarrow> string option \<Rightarrow> string \<Rightarrow> int \<Rightarrow> TaskManager \<Rightarrow> string \<times> TaskManager" where
  "add_task co ty given uuid now m =
     (let tid = (if truthy given then the given else uuid);
          r = length (objects m);
          m1 = m\<lparr>objects := objects m @ [Task_init tid co ty now], tasks := (tasks m)(tid \<mapsto> r)\<rparr>;
          m2 = (if length (running_tasks m1 ty) < concurrency_limits m1 ty
                then start_task r m1
                else obj_update r (\<lambda>t. t\<lparr>queue_position := Some (Suc (length (task_queues m1 ty)))\<rparr>)
                       (m1\<lparr>task_queues := (task_queues m1)(ty := task_queues m1 ty @ [tid])\<rparr>))
      in (tid, m2\<lparr>cleanup_task := True, queue_processor_task := True\<rparr>))"

text \<open>\<^verbatim>\<open>for i, queued_id in enumerate(queue): if queued_task := self.tasks.get(queued_id):
  queued_task.queue_position = i + 1\<close>, from index \<^verbatim>\<open>i\<close> on.\<close>

fun renumber :: "nat \<Rightarrow> string list \<Rightarrow> (string \<rightharpoonup> nat) \<Rightarrow> Task list \<Rightarrow> Task list" where
  "renumber i [] tbl objs = objs"
| "renumber i (q # qs) tbl objs =
     renumber (Suc i) qs tbl
       (case tbl q of
          None \<Rightarrow> objs
        | Some r \<Rightarrow> objs[r := (objs ! r)\<lparr>queue_position := Some (Suc i)\<rparr>])"

definition update_queue_positions :: "TaskType \<Rightarrow> TaskManager \<Rightarrow> TaskManager" where
  "update_queue_positions ty m = m\<lparr>objects := renumber 0 (task_queues m ty) (tasks m) (objects m)\<rparr>"

definition process_queue_for_type :: "TaskType \<Rightarrow> TaskManager \<Rightarrow> TaskManager" where
  "process_queue_for_type ty m =
     (case task_queues m ty of
        [] \<Rightarrow> m
      | next_task_id # rest \<Rightarrow>
          (let m1 = m\<lparr>task_queues := (task_queues m)(ty := rest)\<rparr>
           in case tasks m1 next_task_id of
                None \<Rightarrow> m1
              | Some r \<Rightarrow>
                  if status (objects m1 ! r) = QUEUED
                  then start_task r (update_queue_positions ty m1)
                  else m1))"

text \<open>\<^verbatim>\<open>_handle_task_completion\<close>: \<^verbatim>\<open>set.remove\<close> raises \<^verbatim>\<open>KeyError\<close> on a missing
  element, and the callback's task ends there.\<close>

definition handle_task_completion :: "nat \<Rightarrow> TaskManager \<Rightarrow> TaskManager" where
  "handle_task_completion r m =
     (let t = objects m ! r
      in if task_id t \<in> set (running_tasks m (task_type t))
         then process_queue_for_type (task_type t)
                (m\<lparr>running_tasks := (running_tasks m)
                     (task_type t := removeAll (task_id t) (running_tasks m (task_type t)))\<rparr>)
         else m)"

text \<open>One pass of the \<^verbatim>\<open>while True\<close> loop of \<^verbatim>\<open>_process_queues\<close>, between two sleeps.\<close>

definition poll_type :: "TaskType \<Rightarrow> TaskManager \<Rightarrow> TaskManager" where
  "poll_type ty m =
     (if length (running_tasks m ty) < concurrency_limits m ty
      then process_queue_for_type ty m else m)"

definition process_queues :: "TaskManager \<Rightarrow> TaskManager" where
  "process_queues m = poll_type DEFAULT (poll_type REPORT (poll_type TRANSCRIPTION m))"

text \<open>\<^verbatim>\<open>Task.run\<close>, before and after the awaited work function.\<close>

definition run_begin :: "nat \<Rightarrow> int \<Rightarrow> TaskManager \<Rightarrow> TaskManager" where
  "run_begin r now m = obj_update r (\<lambda>t. t\<lparr>status := RUNNING, started_at := Some now\<rparr>) m"

definition run_end :: "outcome \<Rightarrow> int \<Rightarrow> Task \<Rightarrow> Task" where
  "run_end out now t =
     (case out of
        Returned v \<Rightarrow> t\<lparr>result := v, status := COMPLETED, completed_at := Some now, task := Some Finished\<rparr>
      | Raised e \<Rightarrow> t\<lparr>error := Some e, status := FAILED, completed_at := Some now, task := Some Finished\<rparr>
      | Cancelled \<Rightarrow> t\<lparr>completed_at := Some now, task := Some Finished\<rparr>)"

definition run_finish :: "nat \<Rightarrow> outcome \<Rightarrow> int \<Rightarrow> TaskManager \<Rightarrow> TaskManager" where
  "run_finish r out now m = (obj_update r (run_end out now) m)\<lparr>completions := completions m @ [r]\<rparr>"

text \<open>
  \<^verbatim>\<open>cancel_task\<close>. For an active execution it requests cancellation and awaits the
  execution. One that has not begun \<^verbatim>\<open>run\<close> ends cancelled at once. One inside
  \<^verbatim>\<open>run\<close> gets \<^verbatim>\<open>CancelledError\<close> at its suspension point, and \<^verbatim>\<open>resp\<close> is how its
  work function ends then: \<^verbatim>\<open>Cancelled\<close> if it lets the exception through (\<^verbatim>\<open>run\<close> does
  not catch it, its \<^verbatim>\<open>finally\<close> sets \<^verbatim>\<open>completed_at\<close>), otherwise it has swallowed the
  exception and ended on its own, and \<^verbatim>\<open>await task.task\<close> returns normally. Nothing the
  manager does in between reads the request, so the await is taken to resume in the
  same step.
\<close>

definition cancelled :: "string \<Rightarrow> int \<Rightarrow> Task \<Rightarrow> Task" where
  "cancelled msg now t = t\<lparr>status := FAILED, error := Some msg, completed_at := Some now\<rparr>"

definition cancel_task :: "string \<Rightarrow> outcome \<Rightarrow> int \<Rightarrow> TaskManager \<Rightarrow> bool \<times> TaskManager" where
  "cancel_task tid resp now m =
     (case tasks m tid of
        None \<Rightarrow> (False, m)
      | Some r \<Rightarrow>
          (let t = objects m ! r; ty = task_type t
           in if status t = QUEUED
              then
                (if tid \<in> set (task_queues m ty)
                 then (True,
                       obj_update r (cancelled ''Task was cancelled while in queue'' now)
                         (update_queue_positions ty
                            (m\<lparr>task_queues := (task_queues m)(ty := remove1 tid (task_queues m ty))\<rparr>)))
                 else (False, m))
              else if task t = Some Active
              then
                (if started_at t \<noteq> None \<and> resp \<noteq> Cancelled
                 then (False, run_finish r resp now m)
                 else
                   (True,
                    (obj_update r (\<lambda>t. (cancelled ''Task was cancelled'' now t)\<lparr>task := Some Finished\<rparr>) m)
                      \<lparr>running_tasks := (running_tasks m)(ty := removeAll tid (running_tasks m ty)),
                       completions := completions m @ [r]\<rparr>))
              else (False, m)))"

text \<open>\<^verbatim>\<open>cancel_all_tasks\<close>: fail what is queued, clear the queues, then cancel what the
  running-sets hold.\<close>

fun fail_queued :: "string list \<Rightarrow> (string \<rightharpoonup> nat) \<Rightarrow> int \<Rightarrow> Task list \<Rightarrow> Task list" where
  "fail_queued [] tbl now objs = objs"
| "fail_queued (q # qs) tbl now objs =
     fail_queued qs tbl now
       (case tbl q of
          None \<Rightarrow> objs
        | Some r \<Rightarrow> objs[r := cancelled ''Task was cancelled during shutdown'' now (objs ! r)])"

definition clear_queue :: "int \<Rightarrow> TaskType \<Rightarrow> TaskManager \<Rightarrow> TaskManager" where
  "clear_queue now ty m =
     m\<lparr>objects := fail_queued (task_queues m ty) (tasks m) now (objects m),
       task_queues := (task_queues m)(ty := [])\<rparr>"

fun cancel_each :: "string list \<Rightarrow> (string \<Rightarrow> outcome) \<Rightarrow> int \<Rightarrow> TaskManager \<Rightarrow> TaskManager" where
  "cancel_each [] resp now m = m"
| "cancel_each (tid # tids) resp now m = cancel_each tids resp now (snd (cancel_task tid (resp tid) now m))"

definition cancel_all_tasks :: "(string \<Rightarrow> outcome) \<Rightarrow> int \<Rightarrow> TaskManager \<Rightarrow> TaskManager" where
  "cancel_all_tasks resp now m =
     (let m1 = clear_queue now DEFAULT (clear_queue now REPORT (clear_queue now TRANSCRIPTION m))
      in cancel_each (running_tasks m1 TRANSCRIPTION @ running_tasks m1 REPORT @ running_tasks m1 DEFAULT)
           resp now m1)"

text \<open>One pass of \<^verbatim>\<open>_cleanup_old_tasks\<close>: \<^verbatim>\<open>minutes_old > retention\<close> with
  \<^verbatim>\<open>minutes_old = seconds / 60\<close>.\<close>

definition expired :: "int \<Rightarrow> int \<Rightarrow> Task \<Rightarrow> bool" where
  "expired now retention t =
     (case completed_at t of None \<Rightarrow> False | Some c \<Rightarrow> 60 * retention < now - c)"

definition cleanup_old_tasks :: "int \<Rightarrow> TaskManager \<Rightarrow> TaskManager" where
  "cleanup_old_tasks now m =
     m\<lparr>tasks := (\<lambda>tid. case tasks m tid of
                          None \<Rightarrow> None
                        | Some r \<Rightarrow> if expired now (retention_minutes m) (objects m ! r) then None
                                    else Some r)\<rparr>"

definition get_task_status :: "string \<Rightarrow> TaskManager \<Rightarrow> TaskStatus \<times> Task option" where
  "get_task_status tid m =
     (case tasks m tid of
        None \<Rightarrow> (NOT_FOUND, None)
      | Some r \<Rightarrow> (status (objects m ! r), Some (objects m ! r)))"

subsection \<open>Executions of the manager\<close>

text \<open>
  What can happen to a manager, one atomic step each: a caller's request, the event
  loop starting or ending an execution, running the oldest scheduled completion
  callback, or waking a background loop. An execution begins or ends only if the event
  loop holds it in that state.
\<close>

datatype event =
    AddTask nat TaskType "string option" string
  | RunBegin nat
  | RunFinish nat outcome
  | Completion
  | Poll
  | CancelTask string outcome
  | CancelAll "string \<Rightarrow> outcome"
  | Cleanup

fun step :: "int \<Rightarrow> event \<Rightarrow> TaskManager \<Rightarrow> TaskManager" where
  "step now (AddTask co ty given uuid) m = snd (add_task co ty given uuid now m)"
| "step now (RunBegin r) m =
     (if r < length (objects m) \<and> task (objects m ! r) = Some Active
         \<and> started_at (objects m ! r) = None
      then run_begin r now m else m)"
| "step now (RunFinish r out) m =
     (if r < length (objects m) \<and> task (objects m ! r) = Some Active
         \<and> started_at (objects m ! r) \<noteq> None
      then run_finish r out now m else m)"
| "step now Completion m =
     (case completions m of
        [] \<Rightarrow> m
      | r # rs \<Rightarrow> handle_task_completion r (m\<lparr>completions := rs\<rparr>))"
| "step now Poll m = (if queue_processor_task m then process_queues m else m)"
| "step now (CancelTask tid resp) m = snd (cancel_task tid resp now m)"
| "step now (CancelAll resp) m = cancel_all_tasks resp now m"
| "step now Cleanup m = (if cleanup_task m then cleanup_old_tasks now m else m)"

fun exec :: "(int \<times> event) list \<Rightarrow> TaskManager \<Rightarrow> TaskManager" where
  "exec [] m = m"
| "exec ((now, ev) # evs) m = exec evs (step now ev m)"







section \<open>Per-user single-flight task manager\<close>

text \<open>
  The task manager of the bot service (\<^verbatim>\<open>bot/services/task_manager.py\<close>). Its state is
  the three module dictionaries and the event loop's tasks, in creation order. A
  \<^verbatim>\<open>wrapped_task\<close> closure is the work function it wraps (a handle), the user it was
  made for and the function that made it.
\<close>

datatype wrapper = Queueing | Single

datatype run_state = Scheduled | Started | Done

record aio_task =
  at_user :: string
  at_func :: nat
  at_wrapper :: wrapper
  at_state :: run_state

record user_tasks =
  user_task_queues :: "string \<rightharpoonup> nat list"
  user_running_tasks :: "string \<rightharpoonup> nat"
  user_cancel_messages :: "string \<rightharpoonup> int \<times> int"
  loop_tasks :: "aio_task list"

definition user_tasks_init :: user_tasks where
  "user_tasks_init =
     \<lparr>user_task_queues = Map.empty, user_running_tasks = Map.empty,
      user_cancel_messages = Map.empty, loop_tasks = []\<rparr>"

definition is_task_running :: "string \<Rightarrow> user_tasks \<Rightarrow> bool" where
  "is_task_running user_id s =
     (case user_running_tasks s user_id of
        None \<Rightarrow> False
      | Some a \<Rightarrow> at_state (loop_tasks s ! a) \<noteq> Done)"

text \<open>\<^verbatim>\<open>user_running_tasks[user_id] = asyncio.create_task(wrapped_task())\<close>.\<close>

definition create_task :: "string \<Rightarrow> nat \<Rightarrow> wrapper \<Rightarrow> user_tasks \<Rightarrow> user_tasks" where
  "create_task user_id task_func w s =
     s\<lparr>loop_tasks := loop_tasks s @
          [\<lparr>at_user = user_id, at_func = task_func, at_wrapper = w, at_state = Scheduled\<rparr>],
       user_running_tasks := (user_running_tasks s)(user_id \<mapsto> length (loop_tasks s))\<rparr>"

text \<open>\<^verbatim>\<open>user_task_queues\<close> is a \<^verbatim>\<open>defaultdict(deque)\<close>: reading a missing key makes
  an empty queue.\<close>

definition queue_of :: "string \<Rightarrow> user_tasks \<Rightarrow> nat list" where
  "queue_of user_id s = (case user_task_queues s user_id of None \<Rightarrow> [] | Some q \<Rightarrow> q)"

definition queue_task_with_queueing :: "string \<Rightarrow> nat \<Rightarrow> user_tasks \<Rightarrow> int \<times> user_tasks" where
  "queue_task_with_queueing user_id task_func s =
     (if \<not> is_task_running user_id s
      then (0, create_task user_id task_func Queueing s)
      else (int (length (queue_of user_id s)) + 1,
            s\<lparr>user_task_queues := (user_task_queues s)(user_id \<mapsto> queue_of user_id s @ [task_func])\<rparr>))"

definition queue_task_single_mode ::
  "string \<Rightarrow> nat \<Rightarrow> int option \<Rightarrow> user_tasks \<Rightarrow> int \<times> user_tasks" where
  "queue_task_single_mode user_id task_func message_id s =
     (if is_task_running user_id s
      then (- 1, s)
      else (0, create_task user_id task_func Single s))"

definition queue_task ::
  "bool \<Rightarrow> string \<Rightarrow> nat \<Rightarrow> int option \<Rightarrow> user_tasks \<Rightarrow> int \<times> user_tasks" where
  "queue_task ENABLE_TASK_QUEUING user_id task_func message_id s =
     (if ENABLE_TASK_QUEUING
      then queue_task_with_queueing user_id task_func s
      else queue_task_single_mode user_id task_func message_id s)"

text \<open>A \<^verbatim>\<open>wrapped_task\<close> begins: the single-mode wrapper drops the user's cancel
  message before it awaits the work function.\<close>

definition wrapped_begin :: "nat \<Rightarrow> user_tasks \<Rightarrow> user_tasks" where
  "wrapped_begin a s =
     (let t = loop_tasks s ! a;
          s1 = s\<lparr>loop_tasks := (loop_tasks s)[a := t\<lparr>at_state := Started\<rparr>]\<rparr>
      in case at_wrapper t of
           Queueing \<Rightarrow> s1
         | Single \<Rightarrow> s1\<lparr>user_cancel_messages := (user_cancel_messages s1)(at_user t := None)\<rparr>)"

text \<open>A \<^verbatim>\<open>wrapped_task\<close> ends (the work function returned, raised or was cancelled):
  its \<^verbatim>\<open>finally\<close> block, after which the task is done.\<close>

definition wrapped_finally :: "nat \<Rightarrow> user_tasks \<Rightarrow> user_tasks" where
  "wrapped_finally a s =
     (let t = loop_tasks s ! a;
          u = at_user t;
          s1 = s\<lparr>loop_tasks := (loop_tasks s)[a := t\<lparr>at_state := Done\<rparr>],
                 user_running_tasks := (user_running_tasks s)(u := None)\<rparr>
      in case at_wrapper t of
           Single \<Rightarrow> s1
         | Queueing \<Rightarrow>
             (case queue_of u s1 of
                [] \<Rightarrow> s1\<lparr>user_task_queues := (user_task_queues s1)(u := None)\<rparr>
              | next_task # rest \<Rightarrow>
                  create_task u next_task Queueing
                    (s1\<lparr>user_task_queues := (user_task_queues s1)(u \<mapsto> rest)\<rparr>)))"

text \<open>\<^verbatim>\<open>cancel_user_task\<close>: a task that has begun runs its \<^verbatim>\<open>finally\<close> block before
  the awaiting caller resumes; one that has not begun ends without running.\<close>

definition cancel_user_task :: "string \<Rightarrow> user_tasks \<Rightarrow> bool \<times> user_tasks" where
  "cancel_user_task user_id s =
     (case user_running_tasks s user_id of
        None \<Rightarrow> (False, s)
      | Some a \<Rightarrow>
          (case at_state (loop_tasks s ! a) of
             Done \<Rightarrow> (False, s)
           | Scheduled \<Rightarrow>
               (True, s\<lparr>loop_tasks := (loop_tasks s)[a := (loop_tasks s ! a)\<lparr>at_state := Done\<rparr>],
                        user_running_tasks := (user_running_tasks s)(user_id := None)\<rparr>)
           | Started \<Rightarrow>
               (let s1 = wrapped_finally a s
                in (True, s1\<lparr>user_running_tasks := (user_running_tasks s1)(user_id := None)\<rparr>))))"

definition set_cancel_message :: "string \<Rightarrow> int \<Rightarrow> int \<Rightarrow> user_tasks \<Rightarrow> user_tasks" where
  "set_cancel_message user_id message_id task_message_id s =
     s\<lparr>user_cancel_messages := (user_cancel_messages s)(user_id \<mapsto> (message_id, task_message_id))\<rparr>"

definition get_cancel_message :: "string \<Rightarrow> user_tasks \<Rightarrow> (int \<times> int) option" where
  "get_cancel_message user_id s = user_cancel_messages s user_id"

datatype user_event =
    QueueTask string nat "int option"
  | WrappedBegin nat
  | WrappedEnd nat
  | CancelUserTask string
  | SetCancelMessage string int int

fun user_step :: "bool \<Rightarrow> user_event \<Rightarrow> user_tasks \<Rightarrow> user_tasks" where
  "user_step q (QueueTask u f msg) s = snd (queue_task q u f msg s)"
| "user_step q (WrappedBegin a) s =
     (if a < length (loop_tasks s) \<and> at_state (loop_tasks s ! a) = Scheduled
      then wrapped_begin a s else s)"
| "user_step q (WrappedEnd a) s =
     (if a < length (loop_tasks s) \<and> at_state (loop_tasks s ! a) = Started
      then wrapped_finally a s else s)"
| "user_step q (CancelUserTask u) s = snd (cancel_user_task u s)"
| "user_step q (SetCancelMessage u m1 m2) s = set_cancel_message u m1 m2 s"

fun user_exec :: "bool \<Rightarrow> user_event list \<Rightarrow> user_tasks \<Rightarrow> user_tasks" where
  "user_exec q [] s = s"
| "user_exec q (ev # evs) s = user_exec q evs (user_step q ev s)"

section \<open>Vocabulary of the theorems\<close>

subsection \<open>Webhook rendezvous\<close>

definition valid_ids :: "webhook_env \<Rightarrow> request \<Rightarrow> bool" where
  "valid_ids env req =
     (truthy (q_t_id req) \<and> truthy (q_chat_id req) \<and> truthy (q_db_thread_id req)
      \<and> py_int env (the (q_chat_id req)) \<noteq> None)"

definition delivered :: "stt_files \<Rightarrow> string \<Rightarrow> bool" where
  "delivered db rid =
     (case db rid of
        None \<Rightarrow> False
      | Some row \<Rightarrow> (case map_of row ''delivered_to_user'' of None \<Rightarrow> False | Some v \<Rightarrow> json_truthy v))"

definition retried :: "webhook_env \<Rightarrow> http \<Rightarrow> request \<Rightarrow> stt_files \<Rightarrow> response \<times> stt_files \<times> effect list" where
  "retried env post req db = assemblyai_webhook env post req (fst (snd (assemblyai_webhook env post req db)))"

definition demo_store :: persistence where
  "demo_store =
     \<lparr>db_fault = None, storage_upload = Some ''stt_files/42/t1.docx'',
      repr_str = (\<lambda>s. [CHR 0x27] @ s @ [CHR 0x27])\<rparr>"

definition demo_transcript :: transcript where
  "demo_transcript =
     \<lparr>tr_text = ''hello'', model_used = Some ''nano'', detected_language = Some ''en'',
      summary = None, transcription_docx = None\<rparr>"

definition demo_env :: "string option \<Rightarrow> webhook_env" where
  "demo_env secret =
     \<lparr>getenv_OUR_SECRET_TOKEN = secret, OUR_SECRET_TOKEN = secret,
      TAGENT_LOCAL_URL = Some ''http://bot:8000'', SUPABASE_URL = ''http://db'',
      py_int = (\<lambda>s. if s = ''42'' then Some 42 else None),
      utc_now = ''2025-01-01T00:00:00+00:00'', file_stamp = ''01012025_000000'',
      store = demo_store, get_transcript_result = (\<lambda>_. Inr demo_transcript)\<rparr>"

definition demo_bot :: bot_env where
  "demo_bot =
     \<lparr>bot_getenv_OUR_SECRET_TOKEN = Some ''s3cret'', rate_limited = False,
      str_int = (\<lambda>s. if s = ''7'' then Some 7 else if s = ''8'' then Some 8 else None),
      telegram_fault = None, bot_db_fault = None, repr_json = json_text\<rparr>"

definition demo_request :: "string option \<Rightarrow> string option \<Rightarrow> string \<Rightarrow> request" where
  "demo_request secret chat st =
     \<lparr>hdr_X_Webhook_Secret = secret, q_t_id = Some ''rec1'', q_chat_id = chat,
      q_db_thread_id = Some ''thread1'', q_message_id = Some ''7'', q_temp_msg_id = Some ''8'',
      json_body = Inr \<lparr>p_transcript_id = Some ''tr1'', p_status = Some st\<rparr>\<rparr>"

definition demo_db :: "bool \<Rightarrow> stt_files" where
  "demo_db flag =
     [''rec1'' \<mapsto> [(''status'', JStr ''processing''), (''chat_id'', JInt 42),
                    (''delivered_to_user'', JBool flag)]]"

subsection \<open>Invariants of the category-concurrency manager\<close>

text \<open>What holds of a task object in every execution.\<close>

definition objA :: "Task \<Rightarrow> bool" where
  "objA t =
     ((status t = QUEUED \<longrightarrow> queue_position t \<noteq> None \<and> task t = None)
      \<and> (status t = COMPLETED \<longrightarrow> task t = Some Finished))"

definition heap_ok :: "TaskManager \<Rightarrow> bool" where
  "heap_ok m =
     (\<forall>tid r. tasks m tid = Some r \<longrightarrow> r < length (objects m) \<and> task_id (objects m ! r) = tid)"

definition well_formed :: "TaskManager \<Rightarrow> bool" where
  "well_formed m = (list_all objA (objects m) \<and> heap_ok m \<and> (\<forall>ty. distinct (running_tasks m ty)))"

definition same_but_position :: "Task \<Rightarrow> Task \<Rightarrow> bool" where
  "same_but_position t t' = (t'\<lparr>queue_position := None\<rparr> = t\<lparr>queue_position := None\<rparr>)"









subsection \<open>What a step does to a task object\<close>

text \<open>An event hands an outcome to the execution of a task: the event loop ends the
  execution with it, or a cancellation request is answered with it.\<close>

fun delivers :: "event \<Rightarrow> string \<Rightarrow> nat \<Rightarrow> outcome \<Rightarrow> bool" where
  "delivers (RunFinish r' out') tid r out = (r' = r \<and> out' = out)"
| "delivers (CancelTask tid' out') tid r out = (tid' = tid \<and> out' = out \<and> out \<noteq> Cancelled)"
| "delivers (CancelAll resp) tid r out = (resp tid = out \<and> out \<noteq> Cancelled)"
| "delivers _ tid r out = False"

text \<open>What one step of the manager can do to the task object at reference \<^verbatim>\<open>r\<close>: any
  sequence of the writes that the source makes to a \<^verbatim>\<open>Task\<close>.\<close>

inductive evolves :: "int \<Rightarrow> event \<Rightarrow> nat \<Rightarrow> Task \<Rightarrow> Task \<Rightarrow> bool" for now ev r t where
  same: "evolves now ev r t t"
| position: "evolves now ev r t t' \<Longrightarrow> evolves now ev r t (t'\<lparr>queue_position := Some k\<rparr>)"
| failed: "evolves now ev r t t' \<Longrightarrow> evolves now ev r t (cancelled msg now t')"
| started:
    "evolves now ev r t t' \<Longrightarrow> status t' = QUEUED \<Longrightarrow>
     evolves now ev r t (t'\<lparr>status := PENDING, task := Some Active\<rparr>)"
| begun:
    "evolves now ev r t t' \<Longrightarrow> task t' = Some Active \<Longrightarrow>
     evolves now ev r t (t'\<lparr>status := RUNNING, started_at := Some now\<rparr>)"
| ended:
    "evolves now ev r t t' \<Longrightarrow> task t' = Some Active \<Longrightarrow> delivers ev (task_id t') r out \<Longrightarrow>
     evolves now ev r t (run_end out now t')"
| cancelled:
    "evolves now ev r t t' \<Longrightarrow> task t' = Some Active \<Longrightarrow>
     evolves now ev r t ((cancelled msg now t')\<lparr>task := Some Finished\<rparr>)"


subsection \<open>Example executions of the manager\<close>


text \<open>Two tasks under limit 1: the second waits, and the first one's completion starts
  it.\<close>

definition stale_trace :: "(int \<times> event) list" where
  "stale_trace =
     [(0, AddTask 1 DEFAULT (Some ''a'') ''u1''),
      (1, AddTask 2 DEFAULT (Some ''b'') ''u2''),
      (2, RunBegin 0),
      (3, RunFinish 0 (Returned (Some []))),
      (4, Completion)]"

definition queued_trace :: "(int \<times> event) list" where
  "queued_trace = take 2 stale_trace"




section \<open>Theorems: webhook rendezvous\<close>

lemma truthy_simps [simp]: "truthy None = False" "truthy (Some s) = (s \<noteq> [])"
  by (simp_all add: truthy_def)

lemma check_delivered:
  "db_fault p = None \<Longrightarrow> check_stt_record_delivery p db rid = Inr (delivered db rid)"
  by (simp add: check_stt_record_delivery_def delivered_def split: option.splits)

lemma table_update_delivered:
  "map_of data ''delivered_to_user'' = None \<Longrightarrow>
   delivered (fst (table_update db rid data)) x = delivered db x"
  by (auto simp add: table_update_def delivered_def map_add_def split: json.splits option.splits)

lemma stamp_no_flag:
  "map_of data ''delivered_to_user'' = None \<Longrightarrow> map_of (stamp_processed_at data) ''delivered_to_user'' = None"
  by (simp add: stamp_processed_at_def)

lemma dict_pop_no_flag:
  "map_of data k = None \<Longrightarrow> map_of (dict_pop k' data) k = None"
  by (induction data) (auto simp add: dict_pop_def)

lemma store_docx_no_flag:
  "map_of data ''delivered_to_user'' = None \<Longrightarrow>
   map_of (fst (store_docx p db rid data)) ''delivered_to_user'' = None"
  by (auto simp add: store_docx_def dict_pop_no_flag split: option.splits)

lemma update_stt_record_delivered:
  assumes "map_of data ''delivered_to_user'' = None"
  shows "delivered (fst (snd (update_stt_record p db rid data))) x = delivered db x"
proof -
  obtain d effs where sd: "store_docx p db rid (stamp_processed_at data) = (d, effs)"
    by (cases "store_docx p db rid (stamp_processed_at data)")
  have "map_of d ''delivered_to_user'' = None"
    using store_docx_no_flag [OF stamp_no_flag [OF assms], of p db rid] sd by simp
  then have "delivered (fst (table_update db (JStr rid) d)) x = delivered db x"
    by (rule table_update_delivered)
  then show ?thesis
    using sd by (auto simp add: update_stt_record_def Let_def split: prod.splits option.splits)
qed

lemma error_update:
  "db_fault p = None \<Longrightarrow>
   update_stt_record p db t
     [(''status'', JStr ''error''), (''error'', JStr e), (''processed_at'', JStr now)] =
   (Inr (snd (table_update db (JStr t)
           [(''status'', JStr ''error''), (''error'', JStr e), (''processed_at'', JStr now)])),
    fst (table_update db (JStr t)
           [(''status'', JStr ''error''), (''error'', JStr e), (''processed_at'', JStr now)]),
    [DbUpdate (JStr t)
       [(''status'', JStr ''error''), (''error'', JStr e), (''processed_at'', JStr now)]])"
  by (simp add: update_stt_record_def stamp_processed_at_def store_docx_def Let_def
      split: prod.splits)

lemma send_without_record_id:
  "sm_metadata data = None \<or> map_of (the (sm_metadata data)) ''stt_record_id'' = None \<Longrightarrow>
   fst (snd (send_message_to_user benv data db)) = db"
  by (auto simp add: send_message_to_user_def Let_def split: option.splits)

lemma parse_failure_notice:
  "parse_SendMessage conv (failure_notice c) = Some data \<Longrightarrow> sm_metadata data = None"
  by (auto simp add: parse_SendMessage_def failure_notice_def opt_dict_field_def split: option.splits prod.splits if_splits)

lemma bot_failure_notice_db:
  "fst (snd (bot_service benv url ''/send_message_to_user'' token (failure_notice c) db)) = db"
proof (cases "parse_SendMessage (str_int benv) (failure_notice c)")
  case None
  then show ?thesis by (simp add: bot_service_def)
next
  case (Some data)
  then have "sm_metadata data = None" by (rule parse_failure_notice)
  then have "fst (snd (send_message_to_user benv data db)) = db"
    by (simp add: send_without_record_id)
  then show ?thesis using Some by (auto simp add: bot_service_def split: prod.splits)
qed

lemma webhook_error_delivered:
  "delivered (fst (snd (webhook_error env (bot_service benv) db t c))) x = delivered db x"
proof -
  let ?upd = "[(''status'', JStr ''error''), (''error'', JStr ''Transcription failed at AssemblyAI''),
               (''processed_at'', JStr (utc_now env))]"
  obtain res db1 effs where u: "update_stt_record (store env) db t ?upd = (res, db1, effs)"
    by (cases "update_stt_record (store env) db t ?upd") auto
  have d1: "delivered db1 x = delivered db x"
    using update_stt_record_delivered [of ?upd "store env" db t x] u by simp
  have post: "\<And>url token. fst (snd (bot_service benv url ''/send_message_to_user'' token (failure_notice c) db1)) = db1"
    by (rule bot_failure_notice_db)
  show ?thesis
  proof (cases res)
    case (Inl e)
    then show ?thesis using u d1 by (simp add: webhook_error_def)
  next
    case (Inr rows)
    show ?thesis
    proof (cases "TAGENT_LOCAL_URL env")
      case None
      then show ?thesis using u d1 Inr by (simp add: webhook_error_def)
    next
      case (Some url)
      note url = this
      show ?thesis
      proof (cases "OUR_SECRET_TOKEN env")
        case None
        then show ?thesis using u d1 Inr url by (simp add: webhook_error_def)
      next
        case (Some token)
        obtain sent db2 effs2 where p: "bot_service benv url ''/send_message_to_user'' token (failure_notice c) db1 = (sent, db2, effs2)"
          by (cases "bot_service benv url ''/send_message_to_user'' token (failure_notice c) db1") auto
        have "db2 = db1" using post [of url token] p by simp
        then show ?thesis using u d1 Inr url Some p by (simp add: webhook_error_def)
      qed
    qed
  qed
qed

lemma webhook_proceeds:
  "secret_ok env req \<Longrightarrow> valid_ids env req \<Longrightarrow>
   assemblyai_webhook env post req db =
     webhook_deliver env post req db (the (q_t_id req))
       (the (py_int env (the (q_chat_id req)))) (the (q_db_thread_id req))"
  by (auto simp add: assemblyai_webhook_def valid_ids_def split: option.splits)

text \<open>
  C9 (as amended). When a secret is configured (\<^verbatim>\<open>OUR_SECRET_TOKEN\<close> is set and not
  empty), a request whose \<^verbatim>\<open>X-Webhook-Secret\<close> header is absent or differs from it is
  answered 401 and nothing else happens. A request that passes the secret check and
  lacks the record id, the chat id or the thread id, or whose chat id \<^verbatim>\<open>int\<close> cannot
  read, is answered 400 and nothing else happens. Every other request goes on to the
  record lookup and delivery. When the configured secret is the empty string the header
  is not checked.
\<close>

theorem webhook_rejects:
  "(\<not> secret_ok env req \<longrightarrow>
      assemblyai_webhook env post req db =
        (json_response 401 ''Unauthorized: Invalid webhook secret'', db, []))
   \<and> (secret_ok env req \<and> \<not> valid_ids env req \<longrightarrow>
        status_code (fst (assemblyai_webhook env post req db)) = 400
        \<and> snd (assemblyai_webhook env post req db) = (db, []))
   \<and> (secret_ok env req \<and> valid_ids env req \<longrightarrow>
        assemblyai_webhook env post req db =
          webhook_deliver env post req db (the (q_t_id req))
            (the (py_int env (the (q_chat_id req)))) (the (q_db_thread_id req)))
   \<and> (truthy (getenv_OUR_SECRET_TOKEN env) \<longrightarrow>
        secret_ok env req =
          (hdr_X_Webhook_Secret req = getenv_OUR_SECRET_TOKEN env))"
proof -
  have a: "\<not> secret_ok env req \<longrightarrow>
      assemblyai_webhook env post req db =
        (json_response 401 ''Unauthorized: Invalid webhook secret'', db, [])"
    by (simp add: assemblyai_webhook_def)
  have b: "secret_ok env req \<and> \<not> valid_ids env req \<longrightarrow>
        status_code (fst (assemblyai_webhook env post req db)) = 400
        \<and> snd (assemblyai_webhook env post req db) = (db, [])"
    by (auto simp add: assemblyai_webhook_def valid_ids_def json_response_def split: option.splits)
  have c: "secret_ok env req \<and> valid_ids env req \<longrightarrow>
        assemblyai_webhook env post req db =
          webhook_deliver env post req db (the (q_t_id req))
            (the (py_int env (the (q_chat_id req)))) (the (q_db_thread_id req))"
    by (auto simp add: assemblyai_webhook_def valid_ids_def split: option.splits)
  have d: "truthy (getenv_OUR_SECRET_TOKEN env) \<longrightarrow>
        secret_ok env req = (hdr_X_Webhook_Secret req = getenv_OUR_SECRET_TOKEN env)"
    by (auto simp add: secret_ok_def)
  from a b c d show ?thesis by blast
qed

lemma demo_secret_ok [simp]:
  "secret_ok (demo_env (Some ''s3cret'')) (demo_request h c st) = (h = Some ''s3cret'')"
  by (auto simp add: secret_ok_def demo_env_def demo_request_def truthy_def)

lemma demo_valid_ids [simp]:
  "valid_ids (demo_env s) (demo_request h c st) = (c = Some ''42'')"
  by (cases c) (auto simp add: valid_ids_def demo_env_def demo_request_def truthy_def)

theorem webhook_rejects_witness:
  "assemblyai_webhook (demo_env (Some ''s3cret'')) (bot_service demo_bot)
      (demo_request None (Some ''42'') ''completed'') (demo_db False)
    = (json_response 401 ''Unauthorized: Invalid webhook secret'', demo_db False, [])
   \<and> assemblyai_webhook (demo_env (Some ''s3cret'')) (bot_service demo_bot)
        (demo_request (Some ''wrong'') (Some ''42'') ''completed'') (demo_db False)
      = (json_response 401 ''Unauthorized: Invalid webhook secret'', demo_db False, [])
   \<and> status_code (fst (assemblyai_webhook (demo_env (Some ''s3cret'')) (bot_service demo_bot)
        (demo_request (Some ''s3cret'') (Some ''4x2'') ''completed'') (demo_db False))) = 400
   \<and> status_code (fst (assemblyai_webhook (demo_env (Some ''s3cret'')) (bot_service demo_bot)
        (demo_request (Some ''s3cret'') None ''completed'') (demo_db False))) = 400
   \<and> assemblyai_webhook (demo_env (Some ''s3cret'')) (bot_service demo_bot)
        (demo_request (Some ''s3cret'') (Some ''42'') ''completed'') (demo_db False)
      = webhook_deliver (demo_env (Some ''s3cret'')) (bot_service demo_bot)
          (demo_request (Some ''s3cret'') (Some ''42'') ''completed'') (demo_db False) ''rec1'' 42 ''thread1''"
proof -
  let ?env = "demo_env (Some ''s3cret'')" and ?post = "bot_service demo_bot" and ?db = "demo_db False"
  have ids: "the (q_t_id (demo_request (Some ''s3cret'') (Some ''42'') ''completed'')) = ''rec1''"
    "the (py_int ?env (the (q_chat_id (demo_request (Some ''s3cret'') (Some ''42'') ''completed'')))) = 42"
    "the (q_db_thread_id (demo_request (Some ''s3cret'') (Some ''42'') ''completed'')) = ''thread1''"
    by (simp_all add: demo_request_def demo_env_def)
  show ?thesis
    using webhook_rejects [of ?env "demo_request None (Some ''42'') ''completed''" ?post ?db]
          webhook_rejects [of ?env "demo_request (Some ''wrong'') (Some ''42'') ''completed''" ?post ?db]
          webhook_rejects [of ?env "demo_request (Some ''s3cret'') (Some ''4x2'') ''completed''" ?post ?db]
          webhook_rejects [of ?env "demo_request (Some ''s3cret'') None ''completed''" ?post ?db]
          webhook_rejects [of ?env "demo_request (Some ''s3cret'') (Some ''42'') ''completed''" ?post ?db]
    by (simp add: ids)
qed

text \<open>
  C9 as stated fails: the service starts with \<^verbatim>\<open>OUR_SECRET_TOKEN\<close> set to the empty
  string, and then a request without the header is not answered 401; it reaches the
  record lookup and is acknowledged.
\<close>

theorem empty_secret_counterexample:
  "getenv_OUR_SECRET_TOKEN (demo_env (Some [])) = Some []
   \<and> hdr_X_Webhook_Secret (demo_request None (Some ''42'') ''completed'') = None
   \<and> status_code (fst (assemblyai_webhook (demo_env (Some [])) (bot_service demo_bot)
        (demo_request None (Some ''42'') ''completed'') (demo_db True))) = 200
   \<and> snd (snd (assemblyai_webhook (demo_env (Some [])) (bot_service demo_bot)
        (demo_request None (Some ''42'') ''completed'') (demo_db True))) = [DbCheckDelivery ''rec1'']"
  by (simp add: assemblyai_webhook_def secret_ok_def demo_env_def demo_request_def truthy_def
      webhook_deliver_def check_stt_record_delivery_def demo_store_def demo_db_def already_delivered_def)

text \<open>
  C2. A webhook request whose record already has \<^verbatim>\<open>delivered_to_user\<close> true changes
  nothing in the table and does nothing but the flag lookup: no provider fetch, no
  record update, no send. If it passed the secret and identifier checks (so that the
  lookup is reached), the answer is the success acknowledgement, status 200. The lookup
  is the first external call of the handler.
\<close>

theorem delivered_short_circuit:
  assumes t: "q_t_id req = Some t"
      and flag: "check_stt_record_delivery (store env) db t = Inr True"
  shows "fst (snd (assemblyai_webhook env post req db)) = db
         \<and> set (snd (snd (assemblyai_webhook env post req db))) \<subseteq> {DbCheckDelivery t}
         \<and> (secret_ok env req \<and> valid_ids env req \<longrightarrow>
              assemblyai_webhook env post req db = (already_delivered, db, [DbCheckDelivery t]))
         \<and> status_code already_delivered = 200
         \<and> dict_get (case content already_delivered of JObj d \<Rightarrow> d | _ \<Rightarrow> []) ''success'' = JBool True"
proof -
  have d: "webhook_deliver env post req db t c th = (already_delivered, db, [DbCheckDelivery t])" for c th
    using flag by (simp add: webhook_deliver_def)
  have a: "fst (snd (assemblyai_webhook env post req db)) = db
         \<and> set (snd (snd (assemblyai_webhook env post req db))) \<subseteq> {DbCheckDelivery t}"
    using t d by (simp add: assemblyai_webhook_def split: option.splits)
  have b: "secret_ok env req \<and> valid_ids env req \<longrightarrow>
              assemblyai_webhook env post req db = (already_delivered, db, [DbCheckDelivery t])"
    using t d by (auto simp add: assemblyai_webhook_def valid_ids_def split: option.splits)
  have c: "status_code already_delivered = 200
         \<and> dict_get (case content already_delivered of JObj d \<Rightarrow> d | _ \<Rightarrow> []) ''success'' = JBool True"
    by (simp add: already_delivered_def dict_get_def)
  from a b c show ?thesis by blast
qed

theorem delivered_short_circuit_witness:
  "q_t_id (demo_request (Some ''s3cret'') (Some ''42'') ''completed'') = Some ''rec1''
   \<and> check_stt_record_delivery (store (demo_env (Some ''s3cret''))) (demo_db True) ''rec1'' = Inr True
   \<and> assemblyai_webhook (demo_env (Some ''s3cret'')) (bot_service demo_bot)
        (demo_request (Some ''s3cret'') (Some ''42'') ''completed'') (demo_db True)
      = (already_delivered, demo_db True, [DbCheckDelivery ''rec1''])"
proof -
  have t: "q_t_id (demo_request (Some ''s3cret'') (Some ''42'') ''completed'') = Some ''rec1''"
    by (simp add: demo_request_def)
  have flag: "check_stt_record_delivery (store (demo_env (Some ''s3cret''))) (demo_db True) ''rec1'' = Inr True"
    by (simp add: check_stt_record_delivery_def demo_env_def demo_store_def demo_db_def)
  show ?thesis
    using t flag delivered_short_circuit [OF t flag, of "bot_service demo_bot"] by simp
qed

text \<open>
  C10. The bot's delivery endpoint leaves the table alone unless the message's metadata
  carries \<^verbatim>\<open>stt_record_id\<close>; the failure notice of an error-status webhook has no
  metadata. So an error-status webhook for an undelivered record sends the failure
  notice and leaves every record's delivered flag as it was, and the same webhook
  delivered again is processed again: it sends the failure notice a second time.
\<close>

theorem error_webhook_not_suppressed:
  assumes ok: "secret_ok env req" "valid_ids env req"
      and body: "json_body req = Inr payload" "truthy (p_transcript_id payload)"
                "p_status payload = Some ''error''"
      and flag: "check_stt_record_delivery (store env) db (the (q_t_id req)) = Inr False"
      and cfg: "truthy (TAGENT_LOCAL_URL env)" "truthy (OUR_SECRET_TOKEN env)"
      and c: "py_int env (the (q_chat_id req)) = Some c"
  shows "(\<forall>data d. sm_metadata data = None \<or> map_of (the (sm_metadata data)) ''stt_record_id'' = None
            \<longrightarrow> fst (snd (send_message_to_user benv data d)) = d)
         \<and> map_of (failure_notice c) ''metadata'' = None
         \<and> (\<forall>x. delivered (fst (snd (assemblyai_webhook env (bot_service benv) req db))) x = delivered db x)
         \<and> fst (assemblyai_webhook env (bot_service benv) req db) = processed env
         \<and> HttpPost ''/send_message_to_user'' (failure_notice c)
              \<in> set (snd (snd (assemblyai_webhook env (bot_service benv) req db)))
         \<and> fst (retried env (bot_service benv) req db) = processed env
         \<and> HttpPost ''/send_message_to_user'' (failure_notice c)
              \<in> set (snd (snd (retried env (bot_service benv) req db)))"
proof -
  have nofault: "db_fault (store env) = None"
    using flag by (simp add: check_stt_record_delivery_def split: option.splits)
  have run: "assemblyai_webhook env (bot_service benv) req d =
        (let (r, d', effs) = webhook_error env (bot_service benv) d (the (q_t_id req)) c
         in (r, d', DbCheckDelivery (the (q_t_id req)) # effs))"
    if "delivered d (the (q_t_id req)) = False" for d
    using that body c nofault webhook_proceeds [OF ok, of "bot_service benv" d]
    by (simp add: webhook_deliver_def check_delivered)
  have err: "fst (webhook_error env (bot_service benv) d t c) = processed env
      \<and> HttpPost ''/send_message_to_user'' (failure_notice c)
           \<in> set (snd (snd (webhook_error env (bot_service benv) d t c)))" for d t
    using cfg nofault
    by (auto simp add: webhook_error_def error_update truthy_def Let_def
        split: option.splits prod.splits sum.splits)
  have d0: "delivered db (the (q_t_id req)) = False"
    using flag nofault by (simp add: check_delivered)
  have first: "fst (assemblyai_webhook env (bot_service benv) req db) = processed env
      \<and> HttpPost ''/send_message_to_user'' (failure_notice c)
           \<in> set (snd (snd (assemblyai_webhook env (bot_service benv) req db)))
      \<and> (\<forall>x. delivered (fst (snd (assemblyai_webhook env (bot_service benv) req db))) x = delivered db x)"
    using err [of db "the (q_t_id req)"] webhook_error_delivered [of env benv db "the (q_t_id req)" c]
    by (auto simp add: run [OF d0] split: prod.splits)
  then have d1: "delivered (fst (snd (assemblyai_webhook env (bot_service benv) req db))) (the (q_t_id req)) = False"
    using d0 by simp
  have second: "fst (retried env (bot_service benv) req db) = processed env
      \<and> HttpPost ''/send_message_to_user'' (failure_notice c)
           \<in> set (snd (snd (retried env (bot_service benv) req db)))"
    using err [of "fst (snd (assemblyai_webhook env (bot_service benv) req db))" "the (q_t_id req)"]
    by (auto simp add: retried_def run [OF d1] split: prod.splits)
  have md: "map_of (failure_notice c) ''metadata'' = None"
    by (simp add: failure_notice_def)
  have ep: "\<forall>data d. sm_metadata data = None \<or> map_of (the (sm_metadata data)) ''stt_record_id'' = None
            \<longrightarrow> fst (snd (send_message_to_user benv data d)) = d"
    using send_without_record_id by blast
  from first second md ep show ?thesis by blast
qed

theorem error_webhook_not_suppressed_witness:
  "secret_ok (demo_env (Some ''s3cret'')) (demo_request (Some ''s3cret'') (Some ''42'') ''error'')
   \<and> valid_ids (demo_env (Some ''s3cret'')) (demo_request (Some ''s3cret'') (Some ''42'') ''error'')
   \<and> check_stt_record_delivery (store (demo_env (Some ''s3cret''))) (demo_db False) ''rec1'' = Inr False
   \<and> delivered (fst (snd (assemblyai_webhook (demo_env (Some ''s3cret'')) (bot_service demo_bot)
          (demo_request (Some ''s3cret'') (Some ''42'') ''error'') (demo_db False)))) ''rec1'' = False
   \<and> HttpPost ''/send_message_to_user'' (failure_notice 42)
        \<in> set (snd (snd (assemblyai_webhook (demo_env (Some ''s3cret'')) (bot_service demo_bot)
          (demo_request (Some ''s3cret'') (Some ''42'') ''error'') (demo_db False))))
   \<and> HttpPost ''/send_message_to_user'' (failure_notice 42)
        \<in> set (snd (snd (retried (demo_env (Some ''s3cret'')) (bot_service demo_bot)
          (demo_request (Some ''s3cret'') (Some ''42'') ''error'') (demo_db False))))"
proof -
  let ?env = "demo_env (Some ''s3cret'')" and ?req = "demo_request (Some ''s3cret'') (Some ''42'') ''error''"
  have ok: "secret_ok ?env ?req" "valid_ids ?env ?req" by simp_all
  have body: "json_body ?req = Inr \<lparr>p_transcript_id = Some ''tr1'', p_status = Some ''error''\<rparr>"
    "truthy (p_transcript_id \<lparr>p_transcript_id = Some ''tr1'', p_status = Some ''error''\<rparr>)"
    "p_status \<lparr>p_transcript_id = Some ''tr1'', p_status = Some ''error''\<rparr> = Some ''error''"
    by (simp_all add: demo_request_def)
  have t: "the (q_t_id ?req) = ''rec1''" by (simp add: demo_request_def)
  have flag: "check_stt_record_delivery (store ?env) (demo_db False) (the (q_t_id ?req)) = Inr False"
    by (simp add: t check_stt_record_delivery_def demo_env_def demo_store_def demo_db_def)
  have cfg: "truthy (TAGENT_LOCAL_URL ?env)" "truthy (OUR_SECRET_TOKEN ?env)"
    by (simp_all add: demo_env_def)
  have c: "py_int ?env (the (q_chat_id ?req)) = Some 42"
    by (simp add: demo_env_def demo_request_def)
  have d0: "delivered (demo_db False) ''rec1'' = False"
    by (simp add: delivered_def demo_db_def)
  show ?thesis
    using ok flag d0 error_webhook_not_suppressed [OF ok body flag cfg c, of demo_bot]
    by (simp add: t)
qed
section \<open>Theorems: category-concurrency manager\<close>

lemma list_all_upd:
  "list_all P xs \<Longrightarrow> (r < length xs \<Longrightarrow> P (xs ! r) \<Longrightarrow> P y) \<Longrightarrow> list_all P (xs[r := y])"
proof (cases "r < length xs")
  case True
  assume a: "list_all P xs" and b: "r < length xs \<Longrightarrow> P (xs ! r) \<Longrightarrow> P y"
  have "P y" using a b True by (simp add: list_all_length)
  then show ?thesis using a True by (auto simp add: list_all_length nth_list_update)
next
  case False
  assume "list_all P xs"
  then show ?thesis using False by (simp add: not_less list_update_beyond)
qed

lemma map_upd_same: "f y = f (xs ! r) \<Longrightarrow> map f (xs[r := y]) = map f xs"
proof (cases "r < length xs")
  case True
  assume "f y = f (xs ! r)"
  then have "(map f xs)[r := f y] = map f xs"
    using True by (simp add: list_update_same_conv)
  then show ?thesis by (simp add: map_update)
next
  case False
  then show ?thesis by (simp add: not_less list_update_beyond)
qed

subsection \<open>renumber and fail_queued touch one field each\<close>

lemma same_but_position_fields:
  assumes "same_but_position t t'"
  shows "task_id t' = task_id t" "status t' = status t" "task_type t' = task_type t"
    "result t' = result t" "error t' = error t" "task t' = task t"
    "started_at t' = started_at t" "completed_at t' = completed_at t" "created_at t' = created_at t"
proof -
  have e: "t'\<lparr>queue_position := None\<rparr> = t\<lparr>queue_position := None\<rparr>"
    using assms by (simp add: same_but_position_def)
  show "task_id t' = task_id t" using arg_cong [OF e, of task_id] by simp
  show "status t' = status t" using arg_cong [OF e, of status] by simp
  show "task_type t' = task_type t" using arg_cong [OF e, of task_type] by simp
  show "result t' = result t" using arg_cong [OF e, of result] by simp
  show "error t' = error t" using arg_cong [OF e, of error] by simp
  show "task t' = task t" using arg_cong [OF e, of task] by simp
  show "started_at t' = started_at t" using arg_cong [OF e, of started_at] by simp
  show "completed_at t' = completed_at t" using arg_cong [OF e, of completed_at] by simp
  show "created_at t' = created_at t" using arg_cong [OF e, of created_at] by simp
qed

lemma renumber_length [simp]: "length (renumber i qs tbl objs) = length objs"
  by (induction qs arbitrary: i objs) (auto split: option.splits)

lemma renumber_same:
  "r < length objs \<Longrightarrow> same_but_position (objs ! r) (renumber i qs tbl objs ! r)"
proof (induction qs arbitrary: i objs)
  case Nil
  then show ?case by (simp add: same_but_position_def)
next
  case (Cons q qs)
  show ?case
  proof (cases "tbl q")
    case None
    then show ?thesis using Cons by simp
  next
    case (Some r')
    let ?objs = "objs[r' := (objs ! r')\<lparr>queue_position := Some (Suc i)\<rparr>]"
    have "same_but_position (?objs ! r) (renumber (Suc i) qs tbl ?objs ! r)"
      using Cons.IH [of ?objs "Suc i"] Cons.prems by simp
    moreover have "same_but_position (objs ! r) (?objs ! r)"
      using Cons.prems by (cases "r = r'") (simp_all add: same_but_position_def)
    ultimately show ?thesis using Some by (simp add: same_but_position_def)
  qed
qed

lemma renumber_position:
  "r < length objs \<Longrightarrow> queue_position (objs ! r) \<noteq> None \<Longrightarrow>
   queue_position (renumber i qs tbl objs ! r) \<noteq> None"
proof (induction qs arbitrary: i objs)
  case Nil
  then show ?case by simp
next
  case (Cons q qs)
  show ?case
  proof (cases "tbl q")
    case None
    then show ?thesis using Cons by simp
  next
    case (Some r')
    let ?objs = "objs[r' := (objs ! r')\<lparr>queue_position := Some (Suc i)\<rparr>]"
    have "queue_position (?objs ! r) \<noteq> None"
      using Cons.prems by (cases "r = r'") simp_all
    then show ?thesis using Some Cons.IH [of ?objs "Suc i"] Cons.prems by simp
  qed
qed

lemma renumber_objA:
  assumes "list_all objA objs"
  shows "list_all objA (renumber i qs tbl objs)"
proof -
  have "objA (renumber i qs tbl objs ! r)" if r: "r < length objs" for r
  proof -
    have a: "objA (objs ! r)" using assms r by (simp add: list_all_length)
    note f = same_but_position_fields [OF renumber_same [OF r, of i qs tbl]]
    show ?thesis
      using a renumber_position [OF r, of i qs tbl] by (auto simp add: objA_def f)
  qed
  then show ?thesis by (simp add: list_all_length)
qed

lemma fail_queued_length [simp]: "length (fail_queued qs tbl now objs) = length objs"
  by (induction qs arbitrary: objs) (auto split: option.splits)

lemma fail_queued_objA:
  "list_all objA objs \<Longrightarrow> list_all objA (fail_queued qs tbl now objs)"
proof (induction qs arbitrary: objs)
  case Nil
  then show ?case by simp
next
  case (Cons q qs)
  show ?case
  proof (cases "tbl q")
    case None
    then show ?thesis using Cons by simp
  next
    case (Some r)
    have "list_all objA (objs[r := cancelled ''Task was cancelled during shutdown'' now (objs ! r)])"
      using Cons.prems by (rule list_all_upd) (simp add: objA_def cancelled_def)
    then show ?thesis using Some Cons.IH by simp
  qed
qed

lemma fail_queued_task_id:
  "map task_id (fail_queued qs tbl now objs) = map task_id objs"
proof (induction qs arbitrary: objs)
  case Nil
  then show ?case by simp
next
  case (Cons q qs)
  show ?case
  proof (cases "tbl q")
    case None
    then show ?thesis using Cons by simp
  next
    case (Some r)
    have "map task_id (objs[r := cancelled ''Task was cancelled during shutdown'' now (objs ! r)]) = map task_id objs"
      by (rule map_upd_same) (simp add: cancelled_def)
    then show ?thesis using Some Cons.IH by simp
  qed
qed

lemma renumber_task_id: "map task_id (renumber i qs tbl objs) = map task_id objs"
proof (rule nth_equalityI)
  show "length (map task_id (renumber i qs tbl objs)) = length (map task_id objs)" by simp
next
  fix r assume "r < length (map task_id (renumber i qs tbl objs))"
  then have r: "r < length objs" by simp
  show "map task_id (renumber i qs tbl objs) ! r = map task_id objs ! r"
    using r same_but_position_fields(1) [OF renumber_same [OF r, of i qs tbl]] by simp
qed

lemma heap_ok_ids:
  "heap_ok m \<Longrightarrow> map task_id objs = map task_id (objects m) \<Longrightarrow> heap_ok (m\<lparr>objects := objs\<rparr>)"
proof -
  assume h: "heap_ok m" and e: "map task_id objs = map task_id (objects m)"
  have len: "length objs = length (objects m)" using e by (metis length_map)
  have "task_id (objs ! r) = task_id (objects m ! r)" if "r < length (objects m)" for r
    using e that len by (metis nth_map)
  then show ?thesis using h len by (simp add: heap_ok_def)
qed

subsection \<open>Each operation keeps the manager well-formed\<close>


lemma wf_obj_update:
  assumes "well_formed m"
    and "r < length (objects m) \<Longrightarrow> objA (objects m ! r) \<Longrightarrow> objA (f (objects m ! r))"
    and "task_id (f (objects m ! r)) = task_id (objects m ! r)"
  shows "well_formed (obj_update r f m)"
proof -
  have a: "list_all objA ((objects m)[r := f (objects m ! r)])"
    using assms(1,2) by (auto simp add: well_formed_def intro: list_all_upd)
  have "map task_id ((objects m)[r := f (objects m ! r)]) = map task_id (objects m)"
    using assms(3) by (rule map_upd_same)
  then have "heap_ok (m\<lparr>objects := (objects m)[r := f (objects m ! r)]\<rparr>)"
    using assms(1) by (simp add: well_formed_def heap_ok_ids)
  then show ?thesis using a assms(1) by (simp add: well_formed_def obj_update_def)
qed

lemma wf_start_task:
  assumes "well_formed m" "r < length (objects m)"
  shows "well_formed (start_task r m)"
proof -
  have u: "well_formed (obj_update r (\<lambda>t. t\<lparr>status := PENDING, task := Some Active\<rparr>) m)"
    using assms(1) by (rule wf_obj_update) (simp_all add: objA_def)
  show ?thesis
    using u by (simp add: start_task_def Let_def well_formed_def heap_ok_def obj_update_def)
qed

lemma wf_fields:
  "well_formed m \<Longrightarrow> objects m' = objects m \<Longrightarrow> tasks m' = tasks m \<Longrightarrow>
   (\<forall>ty. distinct (running_tasks m' ty)) \<Longrightarrow> well_formed m'"
  by (simp add: well_formed_def heap_ok_def)

lemma wf_add_task:
  assumes "well_formed m"
  shows "well_formed (snd (add_task co ty given uuid now m))"
proof -
  let ?tid = "if truthy given then the given else uuid"
  let ?r = "length (objects m)"
  have old: "r < length (objects m) \<and> task_id (objects m ! r) = tid'" if "tasks m tid' = Some r" for r tid'
    using assms that unfolding well_formed_def heap_ok_def by blast
  have heap: "heap_ok (m\<lparr>objects := objects m @ [t], tasks := (tasks m)(?tid \<mapsto> ?r)\<rparr>)"
    if "task_id t = ?tid" for t
    using that by (auto simp add: heap_ok_def nth_append less_Suc_eq dest: old)
  show ?thesis
  proof (cases "length (running_tasks m ty) < concurrency_limits m ty")
    case True
    have "objA ((Task_init ?tid co ty now)\<lparr>status := PENDING, task := Some Active\<rparr>)"
      by (simp add: objA_def)
    then show ?thesis
      using assms True heap [of "(Task_init ?tid co ty now)\<lparr>status := PENDING, task := Some Active\<rparr>"]
      by (simp add: add_task_def Let_def start_task_def obj_update_def well_formed_def
          heap_ok_def Task_init_def)
  next
    case False
    have "objA ((Task_init ?tid co ty now)\<lparr>queue_position := Some (Suc (length (task_queues m ty)))\<rparr>)"
      by (simp add: objA_def Task_init_def)
    then show ?thesis
      using assms False
        heap [of "(Task_init ?tid co ty now)\<lparr>queue_position := Some (Suc (length (task_queues m ty)))\<rparr>"]
      by (simp add: add_task_def Let_def obj_update_def well_formed_def heap_ok_def Task_init_def)
  qed
qed

lemma wf_update_queue_positions:
  "well_formed m \<Longrightarrow> well_formed (update_queue_positions ty m)"
  by (simp add: well_formed_def update_queue_positions_def renumber_objA heap_ok_ids renumber_task_id)

lemma wf_process_queue_for_type:
  assumes "well_formed m"
  shows "well_formed (process_queue_for_type ty m)"
proof (cases "task_queues m ty")
  case Nil
  then show ?thesis using assms by (simp add: process_queue_for_type_def)
next
  case (Cons h rest)
  let ?m1 = "m\<lparr>task_queues := (task_queues m)(ty := rest)\<rparr>"
  have m1: "well_formed ?m1" by (rule wf_fields [OF assms]) (use assms in \<open>simp_all add: well_formed_def\<close>)
  show ?thesis
  proof (cases "tasks m h")
    case None
    then show ?thesis using Cons m1 by (simp add: process_queue_for_type_def)
  next
    case (Some r)
    have r: "r < length (objects m)" using assms Some by (simp add: well_formed_def heap_ok_def)
    have "well_formed (start_task r (update_queue_positions ty ?m1))"
      using wf_update_queue_positions [OF m1, of ty] r
      by (intro wf_start_task) (simp_all add: update_queue_positions_def)
    then show ?thesis using Cons Some m1 by (simp add: process_queue_for_type_def Let_def)
  qed
qed

lemma wf_handle_task_completion:
  assumes "well_formed m"
  shows "well_formed (handle_task_completion r m)"
proof -
  let ?t = "objects m ! r"
  have "well_formed (m\<lparr>running_tasks := (running_tasks m)
          (task_type ?t := removeAll (task_id ?t) (running_tasks m (task_type ?t)))\<rparr>)"
    by (rule wf_fields [OF assms]) (use assms in \<open>simp_all add: well_formed_def distinct_removeAll\<close>)
  then show ?thesis
    using assms by (simp add: handle_task_completion_def Let_def wf_process_queue_for_type)
qed

lemma wf_poll_type: "well_formed m \<Longrightarrow> well_formed (poll_type ty m)"
  by (simp add: poll_type_def wf_process_queue_for_type)

lemma wf_process_queues: "well_formed m \<Longrightarrow> well_formed (process_queues m)"
  by (simp add: process_queues_def wf_poll_type)

lemma wf_run_begin: "well_formed m \<Longrightarrow> well_formed (run_begin r now m)"
  unfolding run_begin_def by (rule wf_obj_update) (simp_all add: objA_def)

lemma wf_run_finish:
  assumes "well_formed m" "task (objects m ! r) = Some Active"
  shows "well_formed (run_finish r out now m)"
proof -
  have w: "well_formed (obj_update r (run_end out now) m)"
    using assms(1)
    by (rule wf_obj_update) (use assms(2) in \<open>auto simp add: objA_def run_end_def split: outcome.splits\<close>)
  show ?thesis
    unfolding run_finish_def by (rule wf_fields [OF w]) (use w in \<open>simp_all add: well_formed_def\<close>)
qed

lemma wf_cancel_task:
  assumes "well_formed m"
  shows "well_formed (snd (cancel_task tid resp now m))"
proof (cases "tasks m tid")
  case None
  then show ?thesis using assms by (simp add: cancel_task_def)
next
  case (Some r)
  let ?t = "objects m ! r" and ?ty = "task_type (objects m ! r)"
  show ?thesis
  proof (cases "status ?t = QUEUED")
    case True
    let ?m1 = "m\<lparr>task_queues := (task_queues m)(?ty := remove1 tid (task_queues m ?ty))\<rparr>"
    have "well_formed ?m1" by (rule wf_fields [OF assms]) (use assms in \<open>simp_all add: well_formed_def\<close>)
    then have "well_formed (update_queue_positions ?ty ?m1)" by (rule wf_update_queue_positions)
    then have "well_formed (obj_update r (cancelled ''Task was cancelled while in queue'' now)
                  (update_queue_positions ?ty ?m1))"
      by (rule wf_obj_update) (simp_all add: objA_def cancelled_def)
    then show ?thesis using Some True assms by (simp add: cancel_task_def Let_def)
  next
    case False
    note nq = this
    show ?thesis
    proof (cases "task ?t = Some Active")
      case False
      then show ?thesis using Some nq assms by (simp add: cancel_task_def Let_def)
    next
      case True
      have a: "well_formed (run_finish r out now m)" for out
        using assms True by (rule wf_run_finish)
      have "well_formed (obj_update r (\<lambda>t. (cancelled ''Task was cancelled'' now t)\<lparr>task := Some Finished\<rparr>) m)"
        using assms by (rule wf_obj_update) (simp_all add: objA_def cancelled_def)
      then have b: "well_formed ((obj_update r (\<lambda>t. (cancelled ''Task was cancelled'' now t)\<lparr>task := Some Finished\<rparr>) m)
                        \<lparr>running_tasks := (running_tasks m)(?ty := removeAll tid (running_tasks m ?ty)),
                         completions := completions m @ [r]\<rparr>)"
        by (rule wf_fields) (use assms in \<open>simp_all add: well_formed_def distinct_removeAll obj_update_def\<close>)
      show ?thesis
        using Some nq True a b
        by (simp add: cancel_task_def Let_def)
    qed
  qed
qed

lemma wf_cancel_each:
  "well_formed m \<Longrightarrow> well_formed (cancel_each tids resp now m)"
  by (induction tids arbitrary: m) (simp_all add: wf_cancel_task)

lemma wf_clear_queue:
  assumes "well_formed m"
  shows "well_formed (clear_queue now ty m)"
proof -
  have "heap_ok (m\<lparr>objects := fail_queued (task_queues m ty) (tasks m) now (objects m)\<rparr>)"
    using assms by (intro heap_ok_ids) (simp_all add: well_formed_def fail_queued_task_id)
  then show ?thesis
    using assms by (simp add: well_formed_def clear_queue_def fail_queued_objA heap_ok_def)
qed

lemma wf_cancel_all_tasks: "well_formed m \<Longrightarrow> well_formed (cancel_all_tasks resp now m)"
  by (simp add: cancel_all_tasks_def Let_def wf_cancel_each wf_clear_queue)

lemma wf_cleanup_old_tasks: "well_formed m \<Longrightarrow> well_formed (cleanup_old_tasks now m)"
  by (auto simp add: well_formed_def heap_ok_def cleanup_old_tasks_def split: option.splits if_splits)

lemma wf_step: "well_formed m \<Longrightarrow> well_formed (step now ev m)"
proof (cases ev)
  case Completion
  assume "well_formed m"
  moreover from this have "well_formed (m\<lparr>completions := rs\<rparr>)" for rs
    by (simp add: well_formed_def heap_ok_def)
  ultimately show ?thesis
    using Completion by (simp add: wf_handle_task_completion split: list.splits)
qed (simp_all add: wf_add_task wf_run_begin wf_run_finish wf_process_queues wf_cancel_task
       wf_cancel_all_tasks wf_cleanup_old_tasks)

lemma wf_exec: "well_formed m \<Longrightarrow> well_formed (exec tr m)"
  by (induction tr arbitrary: m) (auto simp add: wf_step)

subsection \<open>The invariant of admissible executions\<close>






















lemma process_queue_limits [simp]:
  "concurrency_limits (process_queue_for_type ty m) = concurrency_limits m"
  by (simp add: process_queue_for_type_def Let_def update_queue_positions_def start_task_def
      obj_update_def split: list.splits option.splits)


lemma poll_limits [simp]: "concurrency_limits (poll_type ty m) = concurrency_limits m"
  by (simp add: poll_type_def)
















subsection \<open>Every step is a sequence of writes to task objects\<close>


lemma evolves_task_id: "evolves now ev r t t' \<Longrightarrow> task_id t' = task_id t"
  by (induction rule: evolves.induct) (auto simp add: cancelled_def run_end_def split: outcome.splits)




















subsection \<open>The objects a step leaves\<close>

lemma length_start_task [simp]: "length (objects (start_task r m)) = length (objects m)"
  by (simp add: start_task_def Let_def obj_update_def)

lemma length_process_queue_for_type [simp]:
  "length (objects (process_queue_for_type ty m)) = length (objects m)"
  by (simp add: process_queue_for_type_def Let_def update_queue_positions_def
      split: list.splits option.splits)

lemma length_handle_task_completion [simp]:
  "length (objects (handle_task_completion r m)) = length (objects m)"
  by (simp add: handle_task_completion_def Let_def)

lemma length_process_queues [simp]: "length (objects (process_queues m)) = length (objects m)"
  by (simp add: process_queues_def poll_type_def)

lemma length_run_finish [simp]: "length (objects (run_finish r out now m)) = length (objects m)"
  by (simp add: run_finish_def obj_update_def)

lemma length_cancel_task [simp]:
  "length (objects (snd (cancel_task tid resp now m))) = length (objects m)"
  by (simp add: cancel_task_def Let_def obj_update_def update_queue_positions_def split: option.splits)

lemma length_cancel_each [simp]:
  "length (objects (cancel_each tids resp now m)) = length (objects m)"
  by (induction tids arbitrary: m) simp_all

lemma length_cancel_all_tasks [simp]:
  "length (objects (cancel_all_tasks resp now m)) = length (objects m)"
  by (simp add: cancel_all_tasks_def Let_def clear_queue_def)





subsection \<open>Pending and running tasks without escapes\<close>




subsection \<open>The concurrency ceiling\<close>


lemma limits_cancel_task [simp]:
  "concurrency_limits (snd (cancel_task tid resp now m)) = concurrency_limits m"
  by (simp add: cancel_task_def obj_update_def update_queue_positions_def run_finish_def Let_def
      split: option.splits)

lemma limits_cancel_each [simp]:
  "concurrency_limits (cancel_each tids resp now m) = concurrency_limits m"
  by (induction tids arbitrary: m) simp_all

lemma limits_step [simp]: "concurrency_limits (step now ev m) = concurrency_limits m"
  by (cases ev)
    (simp_all add: add_task_def start_task_def obj_update_def Let_def run_begin_def run_finish_def
      handle_task_completion_def process_queues_def poll_type_def cancel_all_tasks_def clear_queue_def
      cleanup_old_tasks_def split: list.splits)

lemma limits_exec [simp]: "concurrency_limits (exec tr m) = concurrency_limits m"
  by (induction tr arbitrary: m) auto







end
